theory Spec2Isabelle
  imports Complex_Main "HOL-Library.Log_Nat"
begin

section \<open>Binary classification accuracy measures (\<open>calculate_accuracy\<close>)\<close>

text \<open>
  The development embeds the function \<open>calculate_accuracy(observed, predicted)\<close> of the
  notebook \<open>05_accuracy_standalone.ipynb\<close>. The function is NumPy code: it turns two
  lists into arrays, builds boolean masks with \<open>==\<close> and \<open>&\<close>, counts them with
  \<open>np.sum\<close> and \<open>np.mean\<close>, divides the counts, and stores eighteen numbers in a
  dictionary. Three features of NumPy decide what the function does and are therefore part
  of the model:
  \<^item> the arithmetic is IEEE 754 binary64: every division, product, sum and difference is
    rounded to the nearest double (ties to even), and a division by zero is not an
    exception but yields \<open>inf\<close> or \<open>nan\<close> (with a warning on the console);
  \<^item> \<open>&\<close> and \<open>==\<close> between two one-dimensional arrays broadcast: arrays of equal
    length are combined elementwise, an array of length one is stretched to the other's
    length, and any other pair of lengths raises \<open>ValueError\<close>;
  \<^item> \<open>x == 1\<close> on an array is an elementwise test, whatever the array holds.
\<close>

subsection \<open>IEEE 754 binary64 values\<close>

text \<open>
  A double is either a finite number, given by its exact rational value, or one of
  \<open>+inf\<close>, \<open>-inf\<close>, \<open>nan\<close>. Every finite result of an operation is the exact result
  rounded to 53 significant bits, ties to even, as the hardware does. Two simplifications
  are made and are harmless for this program. Negative zero is identified with zero:
  \<open>calculate_accuracy\<close> never produces it, since the only negative numbers it can compute
  are the finite differences \<open>1 - specificity\<close> and \<open>1 - sensitivity\<close> of a broadcast
  call, and these are never multiplied or divided into a zero. The exponent range is
  unbounded: all finite numbers the function computes are quotients, products, sums and
  differences formed from counts of array elements, and stay inside the normal range of
  binary64 for every array that fits into memory.
\<close>

datatype float64 = Fin rat | PInf | NInf | NaN

text \<open>\<open>ilog2 q\<close> is \<open>\<lfloor>log\<^sub>2 q\<rfloor>\<close> for a positive rational \<open>q\<close>, computed from the
  bit lengths of numerator and denominator.\<close>

definition ilog2 :: "rat \<Rightarrow> int" where
  "ilog2 q =
     (let e0 = bitlen (fst (quotient_of q)) - bitlen (snd (quotient_of q))
      in if 2 powi e0 \<le> q then e0 else e0 - 1)"

text \<open>Rounding to the nearest integer, ties to the even one.\<close>

definition round_half_even :: "rat \<Rightarrow> int" where
  "round_half_even x =
     (let f = \<lfloor>x\<rfloor>; d = x - of_int f
      in if d < 1 / 2 then f
         else if 1 / 2 < d then f + 1
         else if even f then f else f + 1)"

text \<open>Rounding a rational to binary64: the significand has 53 bits, so a number in
  \<open>[2\<^sup>e, 2\<^sup>e\<^sup>+\<^sup>1)\<close> is rounded to a multiple of \<open>2\<^sup>e\<^sup>-\<^sup>5\<^sup>2\<close>.\<close>

definition round_float64 :: "rat \<Rightarrow> rat" where
  "round_float64 q =
     (if q = 0 then 0
      else let u = 2 powi (ilog2 \<bar>q\<bar> - 52)
           in of_int (round_half_even (q / u)) * u)"

text \<open>The four arithmetic operations of binary64. A finite result is the rounded exact
  result; the special cases are those of IEEE 754.\<close>

fun float64_add :: "float64 \<Rightarrow> float64 \<Rightarrow> float64" where
  "float64_add NaN _ = NaN"
| "float64_add _ NaN = NaN"
| "float64_add PInf NInf = NaN"
| "float64_add NInf PInf = NaN"
| "float64_add PInf _ = PInf"
| "float64_add _ PInf = PInf"
| "float64_add NInf _ = NInf"
| "float64_add _ NInf = NInf"
| "float64_add (Fin a) (Fin b) = Fin (round_float64 (a + b))"

fun float64_neg :: "float64 \<Rightarrow> float64" where
  "float64_neg (Fin a) = Fin (- a)"
| "float64_neg PInf = NInf"
| "float64_neg NInf = PInf"
| "float64_neg NaN = NaN"

definition float64_sub :: "float64 \<Rightarrow> float64 \<Rightarrow> float64" where
  "float64_sub x y = float64_add x (float64_neg y)"

text \<open>The infinity of a given sign (\<open>True\<close> for the negative one). A finite number
  divided by zero is the infinity of its own sign, the zero of the model being the positive
  zero.\<close>

fun float64_signed_inf :: "bool \<Rightarrow> float64" where
  "float64_signed_inf neg = (if neg then NInf else PInf)"

fun float64_mul :: "float64 \<Rightarrow> float64 \<Rightarrow> float64" where
  "float64_mul NaN _ = NaN"
| "float64_mul _ NaN = NaN"
| "float64_mul (Fin a) (Fin b) = Fin (round_float64 (a * b))"
| "float64_mul (Fin a) PInf = (if a = 0 then NaN else float64_signed_inf (a < 0))"
| "float64_mul (Fin a) NInf = (if a = 0 then NaN else float64_signed_inf (0 < a))"
| "float64_mul PInf (Fin b) = (if b = 0 then NaN else float64_signed_inf (b < 0))"
| "float64_mul NInf (Fin b) = (if b = 0 then NaN else float64_signed_inf (0 < b))"
| "float64_mul PInf PInf = PInf"
| "float64_mul NInf NInf = PInf"
| "float64_mul PInf NInf = NInf"
| "float64_mul NInf PInf = NInf"

fun float64_div :: "float64 \<Rightarrow> float64 \<Rightarrow> float64" where
  "float64_div NaN _ = NaN"
| "float64_div _ NaN = NaN"
| "float64_div (Fin a) (Fin b) =
     (if b = 0 then (if a = 0 then NaN else float64_signed_inf (a < 0))
      else Fin (round_float64 (a / b)))"
| "float64_div (Fin a) PInf = Fin 0"
| "float64_div (Fin a) NInf = Fin 0"
| "float64_div PInf (Fin b) = float64_signed_inf (b < 0)"
| "float64_div NInf (Fin b) = float64_signed_inf (0 \<le> b)"
| "float64_div PInf PInf = NaN"
| "float64_div PInf NInf = NaN"
| "float64_div NInf PInf = NaN"
| "float64_div NInf NInf = NaN"

text \<open>Conversion of an integer (a Python \<open>int\<close> or a NumPy \<open>int64\<close>) to binary64.\<close>

definition float64_of_int :: "int \<Rightarrow> float64" where
  "float64_of_int k = Fin (round_float64 (of_int k))"

subsection \<open>NumPy arrays and the operations the function uses\<close>

text \<open>
  A one-dimensional array is a list. The inputs are lists (which the function converts
  with \<open>np.array\<close>) or one-dimensional arrays of Python integers; a mask is a list of
  booleans. The integers are taken to fit into \<open>int64\<close>, so that the array holds them as
  they are and \<open>==\<close> compares them exactly: a list that mixes such labels with one of
  \<open>2\<^sup>6\<^sup>3\<close> or more becomes an array of doubles, in which \<open>predicted == observed\<close>
  compares rounded values. The masks \<open>== 0\<close> and \<open>== 1\<close> are the same either way.
  \<open>ValueError\<close> is the exception NumPy raises when two shapes cannot be broadcast
  together; the function has no \<open>raise\<close> and no \<open>assert\<close> of its own.
\<close>

datatype error = ValueError

definition broadcast2 :: "('a \<Rightarrow> 'b \<Rightarrow> 'c) \<Rightarrow> 'a list \<Rightarrow> 'b list \<Rightarrow> error + 'c list" where
  "broadcast2 f xs ys =
     (if length xs = length ys then Inr (map2 f xs ys)
      else if length xs = 1 then Inr (map (f (hd xs)) ys)
      else if length ys = 1 then Inr (map (\<lambda>x. f x (hd ys)) xs)
      else Inl ValueError)"

text \<open>\<open>a == c\<close> for an integer array \<open>a\<close> and a scalar \<open>c\<close>.\<close>

definition np_eq_scalar :: "int list \<Rightarrow> int \<Rightarrow> bool list" where
  "np_eq_scalar a c = map (\<lambda>x. x = c) a"

text \<open>\<open>m == c\<close> for a boolean array \<open>m\<close> and a scalar \<open>c\<close>: \<open>True\<close> counts as 1 and
  \<open>False\<close> as 0.\<close>

definition np_mask_eq_scalar :: "bool list \<Rightarrow> int \<Rightarrow> bool list" where
  "np_mask_eq_scalar m c = map (\<lambda>b. (if b then 1 else 0) = c) m"

text \<open>\<open>a == b\<close> and \<open>m & n\<close> for two arrays.\<close>

definition np_eq :: "int list \<Rightarrow> int list \<Rightarrow> error + bool list" where
  "np_eq a b = broadcast2 (\<lambda>x y. x = y) a b"

definition np_and :: "bool list \<Rightarrow> bool list \<Rightarrow> error + bool list" where
  "np_and m n = broadcast2 (\<lambda>x y. x \<and> y) m n"

text \<open>\<open>np.sum\<close> of a mask is the number of its \<open>True\<close> entries, an \<open>int64\<close> (which
  cannot overflow for an array that fits into memory).\<close>

definition np_sum :: "bool list \<Rightarrow> int" where
  "np_sum m = int (length (filter (\<lambda>b. b) m))"

text \<open>\<open>/\<close> on two \<open>int64\<close> scalars is true division: both are converted to binary64 and
  divided there.\<close>

definition np_true_divide :: "int \<Rightarrow> int \<Rightarrow> float64" where
  "np_true_divide a b = float64_div (float64_of_int a) (float64_of_int b)"

text \<open>\<open>np.mean\<close> of a mask sums the entries in binary64, which is exact for fewer than
  \<open>2\<^sup>5\<^sup>3\<close> entries, and divides the sum by their number; the mean of an empty mask is
  \<open>nan\<close>.\<close>

definition np_mean :: "bool list \<Rightarrow> float64" where
  "np_mean m = np_true_divide (np_sum m) (int (length m))"

subsection \<open>The function\<close>

text \<open>The four masks of the labels, and the four masks that combine them. Each
  definition is the right-hand side of the assignment of the same name.\<close>

definition observed_positives :: "int list \<Rightarrow> bool list" where
  "observed_positives observed = np_eq_scalar observed 1"

definition observed_negatives :: "int list \<Rightarrow> bool list" where
  "observed_negatives observed = np_eq_scalar observed 0"

definition predicted_positives :: "int list \<Rightarrow> bool list" where
  "predicted_positives predicted = np_eq_scalar predicted 1"

definition predicted_negatives :: "int list \<Rightarrow> bool list" where
  "predicted_negatives predicted = np_eq_scalar predicted 0"

definition true_positives :: "int list \<Rightarrow> int list \<Rightarrow> error + bool list" where
  "true_positives observed predicted =
     np_and (np_mask_eq_scalar (predicted_positives predicted) 1)
            (np_mask_eq_scalar (observed_positives observed) 1)"

definition false_positives :: "int list \<Rightarrow> int list \<Rightarrow> error + bool list" where
  "false_positives observed predicted =
     np_and (np_mask_eq_scalar (predicted_positives predicted) 1)
            (np_mask_eq_scalar (observed_positives observed) 0)"

definition true_negatives :: "int list \<Rightarrow> int list \<Rightarrow> error + bool list" where
  "true_negatives observed predicted =
     np_and (np_mask_eq_scalar (predicted_negatives predicted) 1)
            (np_mask_eq_scalar (observed_negatives observed) 1)"

definition false_negatives :: "int list \<Rightarrow> int list \<Rightarrow> error + bool list" where
  "false_negatives observed predicted =
     np_and (np_mask_eq_scalar (predicted_negatives predicted) 1)
            (np_mask_eq_scalar (observed_negatives observed) 0)"

text \<open>An exception leaves the function at the statement that raises it.\<close>

definition bind_error :: "error + 'a \<Rightarrow> ('a \<Rightarrow> error + 'b) \<Rightarrow> error + 'b" where
  "bind_error r f = (case r of Inl e \<Rightarrow> Inl e | Inr v \<Rightarrow> f v)"

text \<open>The dictionary that is returned, in insertion order; \<open>map_of\<close> looks a key up.\<close>

type_synonym results = "(string \<times> float64) list"

definition calculate_accuracy :: "int list \<Rightarrow> int list \<Rightarrow> error + results" where
  "calculate_accuracy observed predicted =
     bind_error (true_positives observed predicted) (\<lambda>tp.
     bind_error (false_positives observed predicted) (\<lambda>fp.
     bind_error (true_negatives observed predicted) (\<lambda>tn.
     bind_error (false_negatives observed predicted) (\<lambda>fn.
     bind_error (np_eq predicted observed) (\<lambda>correct.
     (let accuracy = np_mean correct;
          precision = np_true_divide (np_sum tp) (np_sum tp + np_sum fp);
          recall = np_true_divide (np_sum tp) (np_sum (observed_positives observed));
          sensitivity = recall;
          f1 = float64_mul (Fin 2)
                 (float64_div (float64_mul precision recall) (float64_add precision recall));
          specificity = np_true_divide (np_sum tn) (np_sum (observed_negatives observed));
          positive_likelihood = float64_div sensitivity (float64_sub (Fin 1) specificity);
          negative_likelihood = float64_div (float64_sub (Fin 1) sensitivity) specificity;
          false_positive_rate = float64_sub (Fin 1) specificity;
          false_negative_rate = float64_sub (Fin 1) sensitivity;
          true_positive_rate = sensitivity;
          true_negative_rate = specificity;
          positive_predictive_value =
            np_true_divide (np_sum tp) (np_sum (observed_positives observed));
          negative_predictive_value =
            np_true_divide (np_sum tn) (np_sum (observed_negatives observed))
      in Inr
        [(''observed_positive_rate'', np_mean (observed_positives observed)),
         (''observed_negative_rate'', np_mean (observed_negatives observed)),
         (''predicted_positive_rate'', np_mean (predicted_positives predicted)),
         (''predicted_negative_rate'', np_mean (predicted_negatives predicted)),
         (''accuracy'', accuracy),
         (''precision'', precision),
         (''recall'', recall),
         (''f1'', f1),
         (''sensitivity'', sensitivity),
         (''specificity'', specificity),
         (''positive_likelihood'', positive_likelihood),
         (''negative_likelihood'', negative_likelihood),
         (''false_positive_rate'', false_positive_rate),
         (''false_negative_rate'', false_negative_rate),
         (''true_positive_rate'', true_positive_rate),
         (''true_negative_rate'', true_negative_rate),
         (''positive_predictive_value'', positive_predictive_value),
         (''negative_predictive_value'', negative_predictive_value)]))))))"


text \<open>A caller reads one measure of the returned dictionary with \<open>result[key]\<close>; there is
  no dictionary, and so no measure, when the call raised.\<close>

definition metric :: "error + results \<Rightarrow> string \<Rightarrow> float64 option" where
  "metric r key = (case r of Inl e \<Rightarrow> None | Inr res \<Rightarrow> map_of res key)"

subsection \<open>Notions of the specification\<close>

text \<open>A label sequence is valid when every element is 0 or 1.\<close>

definition valid_labels :: "int list \<Rightarrow> bool" where
  "valid_labels xs = list_all (\<lambda>x. x = 0 \<or> x = 1) xs"

text \<open>The number of cases (indices) at which a condition on the observed and the
  predicted label holds, and the four counts of the specification. \<open>FP_count\<close> and
  \<open>FN_count\<close> follow the wording ``as implemented'': a predicted positive whose observed
  label is not positive, a predicted negative whose observed label is not negative.\<close>

definition count_indices :: "(int \<Rightarrow> int \<Rightarrow> bool) \<Rightarrow> int list \<Rightarrow> int list \<Rightarrow> int" where
  "count_indices P observed predicted =
     int (length (filter (\<lambda>i. P (observed ! i) (predicted ! i)) [0..<length observed]))"

definition TP_count :: "int list \<Rightarrow> int list \<Rightarrow> int" where
  "TP_count observed predicted = count_indices (\<lambda>ob p. p = 1 \<and> ob = 1) observed predicted"

definition FP_count :: "int list \<Rightarrow> int list \<Rightarrow> int" where
  "FP_count observed predicted = count_indices (\<lambda>ob p. p = 1 \<and> ob \<noteq> 1) observed predicted"

definition TN_count :: "int list \<Rightarrow> int list \<Rightarrow> int" where
  "TN_count observed predicted = count_indices (\<lambda>ob p. p = 0 \<and> ob = 0) observed predicted"

definition FN_count :: "int list \<Rightarrow> int list \<Rightarrow> int" where
  "FN_count observed predicted = count_indices (\<lambda>ob p. p = 0 \<and> ob \<noteq> 0) observed predicted"

text \<open>The conventional false-negative mask: predicted 0 and observed 1.\<close>

definition false_negatives_conventional :: "int list \<Rightarrow> int list \<Rightarrow> bool list" where
  "false_negatives_conventional observed predicted =
     map2 (\<lambda>p ob. p = 0 \<and> ob = 1) predicted observed"

text \<open>The eighteen keys of the accuracy report, in the order in which they are stored.\<close>

definition result_keys :: "string list" where
  "result_keys =
     [''observed_positive_rate'', ''observed_negative_rate'', ''predicted_positive_rate'',
      ''predicted_negative_rate'', ''accuracy'', ''precision'', ''recall'', ''f1'',
      ''sensitivity'', ''specificity'', ''positive_likelihood'', ''negative_likelihood'',
      ''false_positive_rate'', ''false_negative_rate'', ''true_positive_rate'',
      ''true_negative_rate'', ''positive_predictive_value'', ''negative_predictive_value'']"

section \<open>Properties of binary64 rounding\<close>

lemma round_half_even_of_int: "round_half_even (of_int k) = k"
  by (simp add: round_half_even_def)

lemma round_half_even_bounds:
  "of_int (round_half_even x) - x \<le> 1 / 2" "x - of_int (round_half_even x) \<le> 1 / 2"
  unfolding round_half_even_def Let_def
  by (simp_all; linarith)+

lemma round_half_even_floor_le: "\<lfloor>x\<rfloor> \<le> round_half_even x"
  by (simp add: round_half_even_def Let_def)

lemma round_half_even_le_floor: "round_half_even x \<le> \<lfloor>x\<rfloor> + 1"
  by (simp add: round_half_even_def Let_def)

lemma round_half_even_mono:
  assumes "x \<le> y" shows "round_half_even x \<le> round_half_even y"
proof (cases "\<lfloor>x\<rfloor> = \<lfloor>y\<rfloor>")
  case True
  then show ?thesis using assms
    by (auto simp: round_half_even_def Let_def)
next
  case False
  then have "\<lfloor>x\<rfloor> + 1 \<le> \<lfloor>y\<rfloor>"
    using assms floor_mono [of x y] by linarith
  then show ?thesis
    using round_half_even_le_floor [of x] round_half_even_floor_le [of y] by linarith
qed

lemma ulp_times_2_52: "(2::rat) ^ 52 * 2 powi (e - 52) = 2 powi e"
proof -
  have "(2::rat) powi (52 + (e - 52)) = 2 powi 52 * 2 powi (e - 52)"
    by (rule power_int_add) simp
  moreover have "52 + (e - 52) = e" by simp
  ultimately show ?thesis by simp
qed

lemma ulp_times_2_53: "(2::rat) ^ 53 * 2 powi (e - 52) = 2 powi (e + 1)"
proof -
  have "(2::rat) powi (53 + (e - 52)) = 2 powi 53 * 2 powi (e - 52)"
    by (rule power_int_add) simp
  moreover have "53 + (e - 52) = e + 1" by simp
  ultimately show ?thesis by simp
qed

lemma bitlen_powi:
  assumes "0 < x"
  shows "(2::rat) powi (bitlen x - 1) \<le> of_int x" "of_int x < (2::rat) powi (bitlen x)"
proof -
  have pos: "1 \<le> bitlen x" using assms by (simp add: bitlen_alt_def)
  have b: "2 ^ nat (bitlen x - 1) \<le> x" "x < 2 ^ nat (bitlen x)"
    using bitlen_bounds [OF assms] by simp_all
  have "(of_int (2 ^ nat (bitlen x - 1)) :: rat) \<le> of_int x"
    using b(1) by (simp only: of_int_le_iff)
  then show "(2::rat) powi (bitlen x - 1) \<le> of_int x"
    using pos by (simp add: power_int_nonneg_exp)
  have "(of_int x :: rat) < of_int (2 ^ nat (bitlen x))"
    using b(2) by (simp only: of_int_less_iff)
  then show "of_int x < (2::rat) powi (bitlen x)"
    using pos by (simp add: power_int_nonneg_exp)
qed

lemma ilog2_bounds:
  assumes "0 < q"
  shows "2 powi (ilog2 q) \<le> q" "q < 2 powi (ilog2 q + 1)"
proof -
  obtain a b where ab: "quotient_of q = (a, b)" by force
  have bpos: "0 < b" using quotient_of_denom_pos [OF ab] .
  have q: "q = of_int a / of_int b" using quotient_of_div [OF ab] .
  have apos: "0 < a"
    using assms bpos unfolding q by (simp add: zero_less_divide_iff)
  define e0 where "e0 = bitlen a - bitlen b"
  have B: "(0::rat) < of_int b" using bpos by simp
  have up: "q < 2 powi (e0 + 1)"
  proof -
    have "of_int a < (2::rat) powi (bitlen a)" using bitlen_powi(2) [OF apos] .
    also have "\<dots> = 2 powi (e0 + 1) * 2 powi (bitlen b - 1)"
      by (simp add: e0_def flip: power_int_add)
    also have "\<dots> \<le> 2 powi (e0 + 1) * of_int b"
      using bitlen_powi(1) [OF bpos] by (simp add: mult_left_mono)
    finally show ?thesis using B unfolding q by (simp add: pos_divide_less_eq)
  qed
  have lo: "2 powi (e0 - 1) < q"
  proof -
    have "2 powi (e0 - 1) * of_int b < 2 powi (e0 - 1) * (2::rat) powi (bitlen b)"
      using bitlen_powi(2) [OF bpos] by (simp add: mult_strict_left_mono)
    also have "\<dots> = 2 powi (bitlen a - 1)"
      by (simp add: e0_def flip: power_int_add)
    also have "\<dots> \<le> of_int a" using bitlen_powi(1) [OF apos] .
    finally show ?thesis using B unfolding q by (simp add: pos_less_divide_eq)
  qed
  have il: "ilog2 q = (if 2 powi e0 \<le> q then e0 else e0 - 1)"
    by (simp add: ilog2_def ab e0_def Let_def)
  show "2 powi (ilog2 q) \<le> q" using lo by (simp add: il)
  show "q < 2 powi (ilog2 q + 1)" using up by (auto simp add: il)
qed

lemma two_powi_less_imp_less:
  assumes "(2::rat) powi m < 2 powi n" shows "m < n"
proof (rule ccontr)
  assume "\<not> m < n"
  then have "(2::rat) powi n \<le> 2 powi m"
    by (intro power_int_increasing) simp_all
  with assms show False by simp
qed

lemma ilog2_unique:
  assumes "2 powi e \<le> q" "q < 2 powi (e + 1)"
  shows "ilog2 q = e"
proof -
  have qpos: "0 < q" using assms(1) zero_less_power_int [of "2::rat" e] by linarith
  note b = ilog2_bounds [OF qpos]
  have "(2::rat) powi e < 2 powi (ilog2 q + 1)" using assms(1) b(2) by linarith
  then have 1: "e < ilog2 q + 1" by (rule two_powi_less_imp_less)
  have "(2::rat) powi (ilog2 q) < 2 powi (e + 1)" using assms(2) b(1) by linarith
  then have 2: "ilog2 q < e + 1" by (rule two_powi_less_imp_less)
  from 1 2 show ?thesis by linarith
qed


lemma round_float64_pos_unfold:
  assumes "0 < q"
  shows "round_float64 q
         = of_int (round_half_even (q / 2 powi (ilog2 q - 52))) * 2 powi (ilog2 q - 52)"
  using assms by (simp add: round_float64_def Let_def)

lemma scaled_significand_bounds:
  assumes "0 < q"
  shows "2 ^ 52 \<le> q / 2 powi (ilog2 q - 52)" "q / 2 powi (ilog2 q - 52) < 2 ^ 53"
proof -
  have u: "(0::rat) < 2 powi (ilog2 q - 52)" by simp
  have "(2::rat) ^ 52 * 2 powi (ilog2 q - 52) = 2 powi (ilog2 q)"
    by (rule ulp_times_2_52)
  then show "2 ^ 52 \<le> q / 2 powi (ilog2 q - 52)"
    using ilog2_bounds(1) [OF assms] u by (simp add: pos_le_divide_eq)
  have "(2::rat) ^ 53 * 2 powi (ilog2 q - 52) = 2 powi (ilog2 q + 1)"
    by (rule ulp_times_2_53)
  then show "q / 2 powi (ilog2 q - 52) < 2 ^ 53"
    using ilog2_bounds(2) [OF assms] u by (simp add: pos_divide_less_eq)
qed

lemma round_half_even_significand:
  assumes "0 < q"
  shows "2 ^ 52 \<le> round_half_even (q / 2 powi (ilog2 q - 52))"
        "round_half_even (q / 2 powi (ilog2 q - 52)) \<le> 2 ^ 53"
proof -
  have "round_half_even (of_int (2 ^ 52)) \<le> round_half_even (q / 2 powi (ilog2 q - 52))"
    using scaled_significand_bounds(1) [OF assms] by (intro round_half_even_mono) simp
  then show "2 ^ 52 \<le> round_half_even (q / 2 powi (ilog2 q - 52))"
    by (simp only: round_half_even_of_int)
  have "round_half_even (q / 2 powi (ilog2 q - 52)) \<le> round_half_even (of_int (2 ^ 53))"
    using scaled_significand_bounds(2) [OF assms] by (intro round_half_even_mono) simp
  then show "round_half_even (q / 2 powi (ilog2 q - 52)) \<le> 2 ^ 53"
    by (simp only: round_half_even_of_int)
qed

lemma round_float64_pos_bounds:
  assumes "0 < q"
  shows "2 powi (ilog2 q) \<le> round_float64 q" "round_float64 q \<le> 2 powi (ilog2 q + 1)"
proof -
  let ?u = "(2::rat) powi (ilog2 q - 52)"
  let ?r = "round_half_even (q / ?u)"
  have u: "0 < ?u" by simp
  have lo: "(2::rat) ^ 52 \<le> of_int ?r"
    using round_half_even_significand(1) [OF assms] of_int_le_iff [of "2 ^ 52" ?r, where ?'a = rat]
    by simp
  have hi: "of_int ?r \<le> (2::rat) ^ 53"
    using round_half_even_significand(2) [OF assms] of_int_le_iff [of ?r "2 ^ 53", where ?'a = rat]
    by simp
  have "2 powi (ilog2 q) = (2::rat) ^ 52 * ?u"
    by (rule ulp_times_2_52 [symmetric])
  also have "\<dots> \<le> of_int ?r * ?u" using lo u by (simp add: mult_right_mono)
  finally show "2 powi (ilog2 q) \<le> round_float64 q"
    by (simp add: round_float64_pos_unfold [OF assms])
  have "of_int ?r * ?u \<le> (2::rat) ^ 53 * ?u" using hi u by (simp add: mult_right_mono)
  also have "\<dots> = 2 powi (ilog2 q + 1)"
    by (rule ulp_times_2_53)
  finally show "round_float64 q \<le> 2 powi (ilog2 q + 1)"
    by (simp add: round_float64_pos_unfold [OF assms])
qed

lemma round_float64_pos: "0 < q \<Longrightarrow> 0 < round_float64 q"
  using round_float64_pos_bounds(1) [of q] zero_less_power_int [of "2::rat" "ilog2 q"]
  by linarith

lemma round_float64_error:
  assumes "0 < q"
  shows "\<bar>round_float64 q - q\<bar> \<le> q / 2 ^ 53"
proof -
  let ?u = "(2::rat) powi (ilog2 q - 52)"
  let ?m = "q / ?u"
  let ?r = "round_half_even ?m"
  have u: "0 < ?u" by simp
  have "\<bar>of_int ?r - ?m\<bar> \<le> 1 / 2"
    using round_half_even_bounds [of ?m] by linarith
  then have "\<bar>of_int ?r - ?m\<bar> * ?u \<le> 1 / 2 * ?u"
    using u by (intro mult_right_mono) simp_all
  moreover have "\<bar>of_int ?r - ?m\<bar> * ?u = \<bar>round_float64 q - q\<bar>"
  proof -
    have "\<bar>of_int ?r - ?m\<bar> * ?u = \<bar>(of_int ?r - ?m) * ?u\<bar>"
      using u by (simp add: abs_mult)
    also have "(of_int ?r - ?m) * ?u = round_float64 q - q"
      using u by (simp add: round_float64_pos_unfold [OF assms] left_diff_distrib)
    finally show ?thesis .
  qed
  moreover have "1 / 2 * ?u \<le> q / 2 ^ 53"
  proof -
    have "2 powi (ilog2 q) = (2::rat) ^ 52 * ?u"
      using power_int_add [of "2::rat" 52 "ilog2 q - 52"] by simp
    then have "(2::rat) ^ 52 * ?u \<le> q" using ilog2_bounds(1) [OF assms] by simp
    then show ?thesis by simp
  qed
  ultimately show ?thesis by linarith
qed

lemma ilog2_mono:
  assumes "0 < x" "x \<le> y"
  shows "ilog2 x \<le> ilog2 y"
proof -
  have "0 < y" using assms by linarith
  then have "(2::rat) powi (ilog2 x) < 2 powi (ilog2 y + 1)"
    using ilog2_bounds(1) [OF assms(1)] ilog2_bounds(2) [of y] assms(2) by linarith
  then have "ilog2 x < ilog2 y + 1" by (rule two_powi_less_imp_less)
  then show ?thesis by simp
qed

lemma round_float64_mono_pos:
  assumes "0 < x" "x \<le> y"
  shows "round_float64 x \<le> round_float64 y"
proof (cases "ilog2 x = ilog2 y")
  case True
  have ypos: "0 < y" using assms by linarith
  let ?u = "(2::rat) powi (ilog2 y - 52)"
  have "x / ?u \<le> y / ?u" using assms(2) by (simp add: divide_right_mono)
  then have "round_half_even (x / ?u) \<le> round_half_even (y / ?u)"
    by (rule round_half_even_mono)
  then have "(of_int (round_half_even (x / ?u)) :: rat) \<le> of_int (round_half_even (y / ?u))"
    by (simp only: of_int_le_iff)
  then have "of_int (round_half_even (x / ?u)) * ?u \<le> of_int (round_half_even (y / ?u)) * ?u"
    by (intro mult_right_mono) simp_all
  then show ?thesis
    by (simp add: round_float64_pos_unfold [OF assms(1)] round_float64_pos_unfold [OF ypos] True)
next
  case False
  have ypos: "0 < y" using assms by linarith
  have "ilog2 x + 1 \<le> ilog2 y" using False ilog2_mono [OF assms] by linarith
  then have "(2::rat) powi (ilog2 x + 1) \<le> 2 powi (ilog2 y)"
    by (intro power_int_increasing) simp_all
  then show ?thesis
    using round_float64_pos_bounds(2) [OF assms(1)] round_float64_pos_bounds(1) [OF ypos]
    by linarith
qed

lemma round_float64_zero: "round_float64 0 = 0"
  by (simp add: round_float64_def)

lemma round_float64_mono:
  assumes "0 \<le> x" "x \<le> y"
  shows "round_float64 x \<le> round_float64 y"
proof (cases "x = 0")
  case True
  show ?thesis
  proof (cases "y = 0")
    case True with \<open>x = 0\<close> show ?thesis by simp
  next
    case False
    then have "0 < y" using assms True by linarith
    then show ?thesis using round_float64_pos [of y] True by (simp add: round_float64_zero)
  qed
next
  case False
  then have "0 < x" using assms by linarith
  then show ?thesis using assms(2) by (rule round_float64_mono_pos)
qed

lemma round_float64_of_int:
  assumes "0 \<le> k" "k < 2 ^ 53"
  shows "round_float64 (of_int k) = of_int k"
proof (cases "k = 0")
  case True then show ?thesis by (simp add: round_float64_zero)
next
  case False
  then have kpos: "0 < k" using assms by linarith
  let ?q = "of_int k :: rat"
  have qpos: "0 < ?q" using kpos by simp
  have "(2::rat) powi (ilog2 ?q) < 2 powi 53"
  proof -
    have "?q < of_int (2 ^ 53)" using assms(2) by (simp only: of_int_less_iff)
    then show ?thesis using ilog2_bounds(1) [OF qpos] by simp
  qed
  then have e: "ilog2 ?q < 53" by (rule two_powi_less_imp_less)
  define n where "n = nat (52 - ilog2 ?q)"
  have u: "(2::rat) powi (ilog2 ?q - 52) = 1 / 2 ^ n"
  proof -
    have "ilog2 ?q - 52 = - int n" using e by (simp add: n_def)
    then show ?thesis by (simp add: power_int_minus_divide)
  qed
  have "?q / (2::rat) powi (ilog2 ?q - 52) = of_int (k * 2 ^ n)"
    by (simp add: u)
  then have "round_half_even (?q / (2::rat) powi (ilog2 ?q - 52)) = k * 2 ^ n"
    by (simp only: round_half_even_of_int)
  then show ?thesis
    by (simp add: round_float64_pos_unfold [OF qpos] u)
qed

lemma round_float64_one: "round_float64 1 = 1"
  using round_float64_of_int [of 1] by simp

section \<open>The masks and their counts\<close>

lemma np_and_same_length:
  "length m = length n \<Longrightarrow> np_and m n = Inr (map2 (\<lambda>x y. x \<and> y) m n)"
  by (simp add: np_and_def broadcast2_def)

lemma np_eq_same_length:
  "length a = length b \<Longrightarrow> np_eq a b = Inr (map2 (\<lambda>x y. x = y) a b)"
  by (simp add: np_eq_def broadcast2_def)

lemma np_mask_eq_scalar_1: "np_mask_eq_scalar m 1 = m"
  by (simp add: np_mask_eq_scalar_def map_idI)

lemma np_mask_eq_scalar_0: "np_mask_eq_scalar m 0 = map Not m"
  by (simp add: np_mask_eq_scalar_def)

lemma map2_map_map: "map2 f (map g xs) (map h ys) = map2 (\<lambda>x y. f (g x) (h y)) xs ys"
  by (simp add: zip_map_map o_def split_def)

lemma true_positives_same_length:
  "length observed = length predicted \<Longrightarrow>
   true_positives observed predicted = Inr (map2 (\<lambda>p ob. p = 1 \<and> ob = 1) predicted observed)"
  by (simp add: true_positives_def predicted_positives_def observed_positives_def
      np_mask_eq_scalar_1 np_mask_eq_scalar_0 np_eq_scalar_def np_and_same_length map2_map_map)

lemma false_positives_same_length:
  "length observed = length predicted \<Longrightarrow>
   false_positives observed predicted = Inr (map2 (\<lambda>p ob. p = 1 \<and> ob \<noteq> 1) predicted observed)"
  by (simp add: false_positives_def predicted_positives_def observed_positives_def
      np_mask_eq_scalar_1 np_mask_eq_scalar_0 np_eq_scalar_def np_and_same_length map2_map_map)

lemma true_negatives_same_length:
  "length observed = length predicted \<Longrightarrow>
   true_negatives observed predicted = Inr (map2 (\<lambda>p ob. p = 0 \<and> ob = 0) predicted observed)"
  by (simp add: true_negatives_def predicted_negatives_def observed_negatives_def
      np_mask_eq_scalar_1 np_mask_eq_scalar_0 np_eq_scalar_def np_and_same_length map2_map_map)

lemma false_negatives_same_length:
  "length observed = length predicted \<Longrightarrow>
   false_negatives observed predicted = Inr (map2 (\<lambda>p ob. p = 0 \<and> ob \<noteq> 0) predicted observed)"
  by (simp add: false_negatives_def predicted_negatives_def observed_negatives_def
      np_mask_eq_scalar_1 np_mask_eq_scalar_0 np_eq_scalar_def np_and_same_length map2_map_map)

lemma np_sum_map2:
  "np_sum (map2 f xs ys) = int (length (filter (\<lambda>(x, y). f x y) (zip xs ys)))"
  by (simp add: np_sum_def length_filter_map o_def split_def)

lemma zip_as_index_map:
  "length xs = length ys \<Longrightarrow> zip xs ys = map (\<lambda>i. (xs ! i, ys ! i)) [0..<length xs]"
  by (rule nth_equalityI) simp_all

lemma count_indices_zip:
  assumes "length observed = length predicted"
  shows "count_indices P observed predicted
         = int (length (filter (\<lambda>(p, ob). P ob p) (zip predicted observed)))"
proof -
  have "zip predicted observed = map (\<lambda>i. (predicted ! i, observed ! i)) [0..<length observed]"
    using zip_as_index_map [of predicted observed] assms by simp
  then show ?thesis
    by (simp add: count_indices_def length_filter_map o_def)
qed

lemma np_sum_map2_count_indices:
  "length observed = length predicted \<Longrightarrow>
   np_sum (map2 f predicted observed) = count_indices (\<lambda>ob p. f p ob) observed predicted"
  by (simp add: np_sum_map2 count_indices_zip)

lemma np_sum_eq_scalar: "np_sum (np_eq_scalar xs c) = int (count_list xs c)"
  by (induction xs) (simp_all add: np_sum_def np_eq_scalar_def)

section \<open>The returned measures in terms of the counts\<close>

text \<open>For inputs of equal length no exception is raised, and every entry of the
  dictionary is a fixed expression in the counts of the label pairs.\<close>

lemmas masks_same_length =
  true_positives_same_length false_positives_same_length
  true_negatives_same_length false_negatives_same_length np_eq_same_length

lemma metric_Inr: "metric (Inr res) key = map_of res key"
  by (simp add: metric_def)

lemma bind_error_Inr: "bind_error (Inr v) f = f v"
  by (simp add: bind_error_def)


lemmas calculate_accuracy_unfold =
  calculate_accuracy_def bind_error_Inr Let_def metric_Inr


lemma np_mean_eq_scalar:
  "np_mean (np_eq_scalar xs c) = np_true_divide (int (count_list xs c)) (int (length xs))"
proof -
  have "length (np_eq_scalar xs c) = length xs" by (simp add: np_eq_scalar_def)
  then show ?thesis by (simp add: np_mean_def np_sum_eq_scalar)
qed

lemma np_mean_map2:
  "length observed = length predicted \<Longrightarrow>
   np_mean (map2 f predicted observed)
   = np_true_divide (count_indices (\<lambda>ob p. f p ob) observed predicted) (int (length observed))"
  by (simp add: np_mean_def np_sum_map2_count_indices)

lemmas count_rewrites =
  np_mean_eq_scalar np_sum_eq_scalar
  observed_positives_def observed_negatives_def predicted_positives_def predicted_negatives_def
  TP_count_def FP_count_def TN_count_def FN_count_def

lemma metric_observed_positive_rate:
  assumes len: "length observed = length predicted"
  shows "metric (calculate_accuracy observed predicted) ''observed_positive_rate''
         = Some (np_true_divide (int (count_list observed 1)) (int (length observed)))"
  unfolding calculate_accuracy_unfold masks_same_length [OF len]
    np_eq_same_length [OF len [symmetric]]
  by (simp add: count_rewrites np_sum_map2_count_indices [OF len] np_mean_map2 [OF len])

lemma metric_observed_negative_rate:
  assumes len: "length observed = length predicted"
  shows "metric (calculate_accuracy observed predicted) ''observed_negative_rate''
         = Some (np_true_divide (int (count_list observed 0)) (int (length observed)))"
  unfolding calculate_accuracy_unfold masks_same_length [OF len]
    np_eq_same_length [OF len [symmetric]]
  by (simp add: count_rewrites np_sum_map2_count_indices [OF len] np_mean_map2 [OF len])

lemma metric_predicted_positive_rate:
  assumes len: "length observed = length predicted"
  shows "metric (calculate_accuracy observed predicted) ''predicted_positive_rate''
         = Some (np_true_divide (int (count_list predicted 1)) (int (length predicted)))"
  unfolding calculate_accuracy_unfold masks_same_length [OF len]
    np_eq_same_length [OF len [symmetric]]
  by (simp add: count_rewrites np_sum_map2_count_indices [OF len] np_mean_map2 [OF len])

lemma metric_predicted_negative_rate:
  assumes len: "length observed = length predicted"
  shows "metric (calculate_accuracy observed predicted) ''predicted_negative_rate''
         = Some (np_true_divide (int (count_list predicted 0)) (int (length predicted)))"
  unfolding calculate_accuracy_unfold masks_same_length [OF len]
    np_eq_same_length [OF len [symmetric]]
  by (simp add: count_rewrites np_sum_map2_count_indices [OF len] np_mean_map2 [OF len])

lemma metric_accuracy:
  assumes len: "length observed = length predicted"
  shows "metric (calculate_accuracy observed predicted) ''accuracy''
         = Some (np_true_divide (count_indices (\<lambda>ob p. p = ob) observed predicted) (int (length observed)))"
  unfolding calculate_accuracy_unfold masks_same_length [OF len]
    np_eq_same_length [OF len [symmetric]]
  by (simp add: count_rewrites np_sum_map2_count_indices [OF len] np_mean_map2 [OF len])

lemma metric_precision:
  assumes len: "length observed = length predicted"
  shows "metric (calculate_accuracy observed predicted) ''precision''
         = Some (np_true_divide (TP_count observed predicted) (TP_count observed predicted + FP_count observed predicted))"
  unfolding calculate_accuracy_unfold masks_same_length [OF len]
    np_eq_same_length [OF len [symmetric]]
  by (simp add: count_rewrites np_sum_map2_count_indices [OF len] np_mean_map2 [OF len])

lemma metric_recall:
  assumes len: "length observed = length predicted"
  shows "metric (calculate_accuracy observed predicted) ''recall''
         = Some (np_true_divide (TP_count observed predicted) (int (count_list observed 1)))"
  unfolding calculate_accuracy_unfold masks_same_length [OF len]
    np_eq_same_length [OF len [symmetric]]
  by (simp add: count_rewrites np_sum_map2_count_indices [OF len] np_mean_map2 [OF len])

lemma metric_f1:
  assumes len: "length observed = length predicted"
  shows "metric (calculate_accuracy observed predicted) ''f1''
         = Some (float64_mul (Fin 2) (float64_div (float64_mul (np_true_divide (TP_count observed predicted) (TP_count observed predicted + FP_count observed predicted)) (np_true_divide (TP_count observed predicted) (int (count_list observed 1)))) (float64_add (np_true_divide (TP_count observed predicted) (TP_count observed predicted + FP_count observed predicted)) (np_true_divide (TP_count observed predicted) (int (count_list observed 1))))))"
  unfolding calculate_accuracy_unfold masks_same_length [OF len]
    np_eq_same_length [OF len [symmetric]]
  by (simp add: count_rewrites np_sum_map2_count_indices [OF len] np_mean_map2 [OF len])

lemma metric_sensitivity:
  assumes len: "length observed = length predicted"
  shows "metric (calculate_accuracy observed predicted) ''sensitivity''
         = Some (np_true_divide (TP_count observed predicted) (int (count_list observed 1)))"
  unfolding calculate_accuracy_unfold masks_same_length [OF len]
    np_eq_same_length [OF len [symmetric]]
  by (simp add: count_rewrites np_sum_map2_count_indices [OF len] np_mean_map2 [OF len])

lemma metric_specificity:
  assumes len: "length observed = length predicted"
  shows "metric (calculate_accuracy observed predicted) ''specificity''
         = Some (np_true_divide (TN_count observed predicted) (int (count_list observed 0)))"
  unfolding calculate_accuracy_unfold masks_same_length [OF len]
    np_eq_same_length [OF len [symmetric]]
  by (simp add: count_rewrites np_sum_map2_count_indices [OF len] np_mean_map2 [OF len])

lemma metric_positive_likelihood:
  assumes len: "length observed = length predicted"
  shows "metric (calculate_accuracy observed predicted) ''positive_likelihood''
         = Some (float64_div (np_true_divide (TP_count observed predicted) (int (count_list observed 1))) (float64_sub (Fin 1) (np_true_divide (TN_count observed predicted) (int (count_list observed 0)))))"
  unfolding calculate_accuracy_unfold masks_same_length [OF len]
    np_eq_same_length [OF len [symmetric]]
  by (simp add: count_rewrites np_sum_map2_count_indices [OF len] np_mean_map2 [OF len])

lemma metric_negative_likelihood:
  assumes len: "length observed = length predicted"
  shows "metric (calculate_accuracy observed predicted) ''negative_likelihood''
         = Some (float64_div (float64_sub (Fin 1) (np_true_divide (TP_count observed predicted) (int (count_list observed 1)))) (np_true_divide (TN_count observed predicted) (int (count_list observed 0))))"
  unfolding calculate_accuracy_unfold masks_same_length [OF len]
    np_eq_same_length [OF len [symmetric]]
  by (simp add: count_rewrites np_sum_map2_count_indices [OF len] np_mean_map2 [OF len])

lemma metric_false_positive_rate:
  assumes len: "length observed = length predicted"
  shows "metric (calculate_accuracy observed predicted) ''false_positive_rate''
         = Some (float64_sub (Fin 1) (np_true_divide (TN_count observed predicted) (int (count_list observed 0))))"
  unfolding calculate_accuracy_unfold masks_same_length [OF len]
    np_eq_same_length [OF len [symmetric]]
  by (simp add: count_rewrites np_sum_map2_count_indices [OF len] np_mean_map2 [OF len])

lemma metric_false_negative_rate:
  assumes len: "length observed = length predicted"
  shows "metric (calculate_accuracy observed predicted) ''false_negative_rate''
         = Some (float64_sub (Fin 1) (np_true_divide (TP_count observed predicted) (int (count_list observed 1))))"
  unfolding calculate_accuracy_unfold masks_same_length [OF len]
    np_eq_same_length [OF len [symmetric]]
  by (simp add: count_rewrites np_sum_map2_count_indices [OF len] np_mean_map2 [OF len])

lemma metric_true_positive_rate:
  assumes len: "length observed = length predicted"
  shows "metric (calculate_accuracy observed predicted) ''true_positive_rate''
         = Some (np_true_divide (TP_count observed predicted) (int (count_list observed 1)))"
  unfolding calculate_accuracy_unfold masks_same_length [OF len]
    np_eq_same_length [OF len [symmetric]]
  by (simp add: count_rewrites np_sum_map2_count_indices [OF len] np_mean_map2 [OF len])

lemma metric_true_negative_rate:
  assumes len: "length observed = length predicted"
  shows "metric (calculate_accuracy observed predicted) ''true_negative_rate''
         = Some (np_true_divide (TN_count observed predicted) (int (count_list observed 0)))"
  unfolding calculate_accuracy_unfold masks_same_length [OF len]
    np_eq_same_length [OF len [symmetric]]
  by (simp add: count_rewrites np_sum_map2_count_indices [OF len] np_mean_map2 [OF len])

lemma metric_positive_predictive_value:
  assumes len: "length observed = length predicted"
  shows "metric (calculate_accuracy observed predicted) ''positive_predictive_value''
         = Some (np_true_divide (TP_count observed predicted) (int (count_list observed 1)))"
  unfolding calculate_accuracy_unfold masks_same_length [OF len]
    np_eq_same_length [OF len [symmetric]]
  by (simp add: count_rewrites np_sum_map2_count_indices [OF len] np_mean_map2 [OF len])

lemma metric_negative_predictive_value:
  assumes len: "length observed = length predicted"
  shows "metric (calculate_accuracy observed predicted) ''negative_predictive_value''
         = Some (np_true_divide (TN_count observed predicted) (int (count_list observed 0)))"
  unfolding calculate_accuracy_unfold masks_same_length [OF len]
    np_eq_same_length [OF len [symmetric]]
  by (simp add: count_rewrites np_sum_map2_count_indices [OF len] np_mean_map2 [OF len])

section \<open>Counting the correct predictions\<close>

lemma count_indices_nonneg: "0 \<le> count_indices P observed predicted"
  by (simp add: count_indices_def)

lemma count_indices_le_length: "count_indices P observed predicted \<le> int (length observed)"
proof -
  have "length (filter (\<lambda>i. P (observed ! i) (predicted ! i)) [0..<length observed])
        \<le> length [0..<length observed]"
    by (rule length_filter_le)
  then show ?thesis by (simp add: count_indices_def)
qed

lemma filter_equal_labels_split:
  assumes "\<forall>(p, ob) \<in> set zs. (p = 0 \<or> p = 1) \<and> (ob = 0 \<or> ob = (1::int))"
  shows "length (filter (\<lambda>(p, ob). p = ob) zs)
         = length (filter (\<lambda>(p, ob). p = 1 \<and> ob = 1) zs)
           + length (filter (\<lambda>(p, ob). p = (0::int) \<and> ob = 0) zs)"
  using assms
proof (induction zs)
  case Nil
  show ?case by simp
next
  case (Cons z zs)
  obtain p ob where z: "z = (p, ob)" by (cases z)
  have v: "(p = 0 \<or> p = 1) \<and> (ob = 0 \<or> ob = 1)" using Cons.prems by (simp add: z)
  have IH: "length (filter (\<lambda>(p, ob). p = ob) zs)
         = length (filter (\<lambda>(p, ob). p = 1 \<and> ob = 1) zs)
           + length (filter (\<lambda>(p, ob). p = (0::int) \<and> ob = 0) zs)"
    using Cons.IH Cons.prems by simp
  from v show ?case unfolding z by (simp add: IH) linarith
qed

lemma valid_labels_set: "valid_labels xs \<longleftrightarrow> (\<forall>x \<in> set xs. x = 0 \<or> x = 1)"
  by (simp add: valid_labels_def list_all_iff)

lemma correct_count_eq_TP_plus_TN:
  assumes len: "length observed = length predicted"
    and vo: "valid_labels observed" and vp: "valid_labels predicted"
  shows "count_indices (\<lambda>ob p. p = ob) observed predicted
         = TP_count observed predicted + TN_count observed predicted"
proof -
  have "\<forall>(p, ob) \<in> set (zip predicted observed). (p = 0 \<or> p = 1) \<and> (ob = 0 \<or> ob = 1)"
    using vo vp by (auto simp: valid_labels_set dest: set_zip_leftD set_zip_rightD)
  from filter_equal_labels_split [OF this] show ?thesis
    by (simp add: TP_count_def TN_count_def count_indices_zip [OF len])
qed

lemma np_true_divide_unit_interval:
  assumes "0 \<le> c" "c \<le> n" "0 < n"
  shows "\<exists>a. np_true_divide c n = Fin a \<and> 0 \<le> a \<and> a \<le> 1"
proof -
  let ?c = "round_float64 (of_int c)" and ?n = "round_float64 (of_int n)"
  have npos: "0 < ?n" using assms(3) by (intro round_float64_pos) simp
  have c0: "0 \<le> ?c"
    using round_float64_mono [of 0 "of_int c"] assms(1) by (simp add: round_float64_zero)
  have cn: "?c \<le> ?n" using assms(1,2) by (intro round_float64_mono) simp_all
  have q0: "0 \<le> ?c / ?n" using c0 npos by simp
  have q1: "?c / ?n \<le> 1" using cn npos by simp
  have "0 \<le> round_float64 (?c / ?n)"
    using round_float64_mono [OF order_refl q0] by (simp add: round_float64_zero)
  moreover have "round_float64 (?c / ?n) \<le> 1"
    using round_float64_mono [OF q0 q1] by (simp add: round_float64_one)
  moreover have "np_true_divide c n = Fin (round_float64 (?c / ?n))"
    using npos by (simp add: np_true_divide_def float64_of_int_def)
  ultimately show ?thesis by blast
qed

lemma np_true_divide_exact_quotient:
  assumes "0 \<le> a" "a < 2 ^ 53" "0 < b" "b < 2 ^ 53"
  shows "np_true_divide a b = Fin (round_float64 (of_int a / of_int b))"
  using assms by (simp add: np_true_divide_def float64_of_int_def round_float64_of_int)

lemma int_length_bound: "length xs < 2 ^ 53 \<Longrightarrow> int (length xs) < 2 ^ 53"
  by simp

section \<open>The false-negative mask on valid labels\<close>

lemma false_negatives_conventional_map2:
  assumes "valid_labels observed"
  shows "map2 (\<lambda>p ob. p = 0 \<and> ob \<noteq> 0) predicted observed
         = false_negatives_conventional observed predicted"
proof -
  have "(case z of (p, ob) \<Rightarrow> p = 0 \<and> ob \<noteq> 0) = (case z of (p, ob) \<Rightarrow> p = 0 \<and> ob = 1)"
    if "z \<in> set (zip predicted observed)" for z
  proof -
    obtain p ob where z: "z = (p, ob)" by (cases z)
    have "ob \<in> set observed" using that unfolding z by (rule set_zip_rightD)
    then have "ob = 0 \<or> ob = 1" using assms by (simp add: valid_labels_set)
    then show ?thesis unfolding z by auto
  qed
  then show ?thesis
    unfolding false_negatives_conventional_def by (intro map_cong refl)
qed

section \<open>Broadcasting: when the call raises and when it returns\<close>

lemma bind_error_Inl: "bind_error (Inl e) f = Inl e"
  by (simp add: bind_error_def)

lemma length_np_eq_scalar: "length (np_eq_scalar a c) = length a"
  by (simp add: np_eq_scalar_def)

lemma length_np_mask_eq_scalar: "length (np_mask_eq_scalar m c) = length m"
  by (simp add: np_mask_eq_scalar_def)

lemma broadcast2_raises:
  "length xs \<noteq> length ys \<Longrightarrow> length xs \<noteq> 1 \<Longrightarrow> length ys \<noteq> 1 \<Longrightarrow>
   broadcast2 f xs ys = Inl ValueError"
  by (simp add: broadcast2_def)

lemma broadcast2_returns:
  "length xs = length ys \<or> length xs = 1 \<or> length ys = 1 \<Longrightarrow>
   \<exists>zs. broadcast2 f xs ys = Inr zs"
  by (auto simp add: broadcast2_def)

lemma true_positives_raises:
  assumes "length observed \<noteq> length predicted" "length observed \<noteq> 1" "length predicted \<noteq> 1"
  shows "true_positives observed predicted = Inl ValueError"
  using assms unfolding true_positives_def np_and_def predicted_positives_def observed_positives_def
  by (intro broadcast2_raises) (simp_all add: length_np_eq_scalar length_np_mask_eq_scalar)

lemma calculate_accuracy_raises:
  assumes "length observed \<noteq> length predicted" "length observed \<noteq> 1" "length predicted \<noteq> 1"
  shows "calculate_accuracy observed predicted = Inl ValueError"
  unfolding calculate_accuracy_def true_positives_raises [OF assms] bind_error_Inl ..

lemma np_and_returns:
  assumes "length m = length n \<or> length m = 1 \<or> length n = 1"
  shows "\<exists>zs. np_and m n = Inr zs"
  unfolding np_and_def using assms by (rule broadcast2_returns)

lemma np_eq_returns:
  assumes "length a = length b \<or> length a = 1 \<or> length b = 1"
  shows "\<exists>zs. np_eq a b = Inr zs"
  unfolding np_eq_def using assms by (rule broadcast2_returns)

lemma mask_lengths_broadcast:
  assumes "length observed = length predicted \<or> length observed = 1 \<or> length predicted = 1"
  shows "length (np_mask_eq_scalar (np_eq_scalar predicted c) d)
           = length (np_mask_eq_scalar (np_eq_scalar observed c') d')
         \<or> length (np_mask_eq_scalar (np_eq_scalar predicted c) d) = 1
         \<or> length (np_mask_eq_scalar (np_eq_scalar observed c') d') = 1"
  using assms unfolding length_np_eq_scalar length_np_mask_eq_scalar by auto

lemma true_positives_returns:
  assumes "length observed = length predicted \<or> length observed = 1 \<or> length predicted = 1"
  shows "\<exists>tp. true_positives observed predicted = Inr tp"
  unfolding true_positives_def predicted_positives_def observed_positives_def
  by (rule np_and_returns [OF mask_lengths_broadcast [OF assms]])

lemma false_positives_returns:
  assumes "length observed = length predicted \<or> length observed = 1 \<or> length predicted = 1"
  shows "\<exists>fp. false_positives observed predicted = Inr fp"
  unfolding false_positives_def predicted_positives_def observed_positives_def
  by (rule np_and_returns [OF mask_lengths_broadcast [OF assms]])

lemma true_negatives_returns:
  assumes "length observed = length predicted \<or> length observed = 1 \<or> length predicted = 1"
  shows "\<exists>tn. true_negatives observed predicted = Inr tn"
  unfolding true_negatives_def predicted_negatives_def observed_negatives_def
  by (rule np_and_returns [OF mask_lengths_broadcast [OF assms]])

lemma false_negatives_returns:
  assumes "length observed = length predicted \<or> length observed = 1 \<or> length predicted = 1"
  shows "\<exists>fn. false_negatives observed predicted = Inr fn"
  unfolding false_negatives_def predicted_negatives_def observed_negatives_def
  by (rule np_and_returns [OF mask_lengths_broadcast [OF assms]])

lemma correct_mask_returns:
  assumes "length observed = length predicted \<or> length observed = 1 \<or> length predicted = 1"
  shows "\<exists>c. np_eq predicted observed = Inr c"
  using assms by (intro np_eq_returns) auto

lemma calculate_accuracy_returns:
  assumes "length observed = length predicted \<or> length observed = 1 \<or> length predicted = 1"
  shows "\<exists>res. calculate_accuracy observed predicted = Inr res \<and> map fst res = result_keys"
proof -
  obtain tp fp tn fn c where m:
    "true_positives observed predicted = Inr tp" "false_positives observed predicted = Inr fp"
    "true_negatives observed predicted = Inr tn" "false_negatives observed predicted = Inr fn"
    "np_eq predicted observed = Inr c"
    using true_positives_returns [OF assms] false_positives_returns [OF assms]
      true_negatives_returns [OF assms] false_negatives_returns [OF assms]
      correct_mask_returns [OF assms] by blast
  show ?thesis
    unfolding calculate_accuracy_def m bind_error_Inr Let_def result_keys_def
    by simp
qed


text \<open>A measure of a call that returned, in terms of the masks it computed.\<close>

lemma metric_recall_from_masks:
  assumes "true_positives observed predicted = Inr tp"
    "false_positives observed predicted = Inr fp"
    "true_negatives observed predicted = Inr tn"
    "false_negatives observed predicted = Inr fn"
    "np_eq predicted observed = Inr c"
  shows "metric (calculate_accuracy observed predicted) ''recall''
         = Some (np_true_divide (np_sum tp) (np_sum (observed_positives observed)))"
  unfolding calculate_accuracy_unfold assms by simp

section \<open>Labels outside 0 and 1\<close>

text \<open>A label that is neither 0 nor 1 is missing from both masks of its sequence, so the
  two observed rates add up to less than one; the four combined masks still cover every case
  whose predicted label is 0 or 1.\<close>

lemma invalid_label_counts:
  assumes "\<not> valid_labels xs"
  shows "int (count_list xs 1) + int (count_list xs 0) < int (length xs)"
proof -
  have le: "count_list ys 1 + count_list ys 0 \<le> length ys" for ys :: "int list"
    by (induction ys) auto
  have "count_list xs 1 + count_list xs 0 < length xs" using assms
  proof (induction xs)
    case Nil
    then show ?case by (simp add: valid_labels_def)
  next
    case (Cons x xs)
    show ?case
    proof (cases "x = 0 \<or> x = 1")
      case True
      then have "\<not> valid_labels xs" using Cons.prems by (auto simp: valid_labels_def)
      then have "count_list xs 1 + count_list xs 0 < length xs" by (rule Cons.IH)
      with True show ?thesis by auto
    next
      case False
      with le [of xs] show ?thesis by auto
    qed
  qed
  then show ?thesis by linarith
qed

lemma round_float64_below_one: "round_float64 (1 - 1 / 2 ^ 53) = 1 - 1 / 2 ^ 53"
  by code_simp

lemma rates_sum_less_one:
  assumes "0 \<le> a" "0 \<le> b" "a + b < n" "n < 2 ^ 52"
  shows "\<exists>x y z. np_true_divide a n = Fin x \<and> np_true_divide b n = Fin y \<and> x + y < 1
           \<and> float64_add (Fin x) (Fin y) = Fin z \<and> z < 1"
proof -
  have npos: "0 < n" using assms by linarith
  let ?n = "of_int n :: rat"
  let ?x = "round_float64 (of_int a / ?n)" and ?y = "round_float64 (of_int b / ?n)"
  have Npos: "0 < ?n" using npos by simp
  have upper: "round_float64 (of_int k / ?n) \<le> of_int k / ?n + (of_int k / ?n) / 2 ^ 53"
    if "0 \<le> k" for k
  proof (cases "k = 0")
    case True
    then show ?thesis by (simp add: round_float64_zero)
  next
    case False
    then have "0 < of_int k / ?n" using that Npos by simp
    from round_float64_error [OF this] show ?thesis by linarith
  qed
  have lower: "0 \<le> round_float64 (of_int k / ?n)" if "0 \<le> k" for k
  proof -
    have "0 \<le> of_int k / ?n" using that Npos by simp
    from round_float64_mono [OF order_refl this] show ?thesis
      by (simp add: round_float64_zero)
  qed
  have n53: "n < 2 ^ 53" using assms(4) by simp
  have a53: "a < 2 ^ 53" and b53: "b < 2 ^ 53" using assms(1,2,3) n53 by linarith+
  have ea: "np_true_divide a n = Fin ?x"
    using assms(1) a53 npos n53 by (rule np_true_divide_exact_quotient)
  have eb: "np_true_divide b n = Fin ?y"
    using assms(2) b53 npos n53 by (rule np_true_divide_exact_quotient)
  define s where "s = (of_int a + of_int b) / ?n"
  have "a + b \<le> n - 1" using assms(3) by linarith
  then have "(of_int (a + b) :: rat) \<le> of_int (n - 1)" by (simp only: of_int_le_iff)
  then have "(of_int a + of_int b) / ?n \<le> (?n - 1) / ?n"
    using Npos by (intro divide_right_mono) simp_all
  also have "(?n - 1) / ?n = 1 - 1 / ?n"
    using Npos by (simp add: diff_divide_distrib)
  finally have s_le: "s \<le> 1 - 1 / ?n" by (simp add: s_def)
  have "?n < of_int (2 ^ 52)" using assms(4) by (simp only: of_int_less_iff)
  then have n52: "?n < 2 ^ 52" by simp
  have inv: "1 / (2 ^ 52 :: rat) < 1 / ?n"
    using n52 Npos by (simp add: frac_less2)
  have "0 < 1 / ?n" using Npos by simp
  then have s_lt1: "s < 1" using s_le by linarith
  have tail: "s / 2 ^ 53 \<le> 1 / 2 ^ 53"
    using s_lt1 by (intro divide_right_mono) simp_all
  have sa: "s = of_int a / ?n + of_int b / ?n"
    by (simp add: s_def add_divide_distrib)
  have sb: "s / 2 ^ 53 = (of_int a / ?n) / 2 ^ 53 + (of_int b / ?n) / 2 ^ 53"
    unfolding sa by (rule add_divide_distrib)
  have "?x + ?y \<le> s + s / 2 ^ 53"
    using upper [OF assms(1)] upper [OF assms(2)] unfolding sb unfolding sa by linarith
  also have "\<dots> \<le> 1 - 1 / 2 ^ 52 + 1 / 2 ^ 53" using s_le inv tail by linarith
  also have "\<dots> = 1 - 1 / (2 ^ 53 :: rat)" by simp
  finally have sum_le: "?x + ?y \<le> 1 - 1 / 2 ^ 53" .
  then have sum_lt: "?x + ?y < 1" by simp
  have sum_nonneg: "0 \<le> ?x + ?y"
    using lower [OF assms(1)] lower [OF assms(2)] by linarith
  have "round_float64 (?x + ?y) \<le> round_float64 (1 - 1 / 2 ^ 53)"
    using sum_nonneg sum_le by (rule round_float64_mono)
  then have z: "round_float64 (?x + ?y) < 1"
    unfolding round_float64_below_one by simp
  have add: "float64_add (Fin ?x) (Fin ?y) = Fin (round_float64 (?x + ?y))" by simp
  from ea eb sum_lt add z show ?thesis by (intro exI conjI)
qed

lemma four_masks_count_predicted:
  fixes observed predicted :: "int list"
  assumes "length observed = length predicted"
  shows "np_sum (map2 (\<lambda>p ob. p = 1 \<and> ob = 1) predicted observed)
       + np_sum (map2 (\<lambda>p ob. p = 1 \<and> ob \<noteq> 1) predicted observed)
       + np_sum (map2 (\<lambda>p ob. p = 0 \<and> ob = 0) predicted observed)
       + np_sum (map2 (\<lambda>p ob. p = 0 \<and> ob \<noteq> 0) predicted observed)
       = int (length (filter (\<lambda>p. p = 0 \<or> p = 1) predicted))"
  using assms [symmetric]
proof (induction predicted observed rule: list_induct2)
  case Nil
  show ?case by (simp add: np_sum_def)
next
  case (Cons p ps ob obs)
  then show ?case by (cases "p = 0"; cases "p = 1"; cases "ob = 0"; cases "ob = 1")
      (simp_all add: np_sum_def)
qed

lemma length_filter_eq_length_iff:
  "length (filter P xs) = length xs \<longleftrightarrow> (\<forall>x \<in> set xs. P x)"
proof (induction xs)
  case Nil
  show ?case by simp
next
  case (Cons x xs)
  have "length (filter P xs) \<le> length xs" by (rule length_filter_le)
  then have "length (filter P xs) \<noteq> Suc (length xs)" by linarith
  with Cons show ?case by simp
qed


section \<open>The rounding error of the harmonic mean\<close>

text \<open>In exact arithmetic the harmonic mean of two positive numbers lies between them. The
  function computes it with four rounded operations, each with a relative error of at most
  \<open>2\<^sup>-\<^sup>5\<^sup>3\<close>.\<close>

lemma round_float64_relative:
  assumes "0 < q"
  shows "q * (1 - 1 / 2 ^ 53) \<le> round_float64 q" "round_float64 q \<le> q * (1 + 1 / 2 ^ 53)"
proof -
  have "\<bar>round_float64 q - q\<bar> \<le> q / 2 ^ 53" using assms by (rule round_float64_error)
  then have "q - q / 2 ^ 53 \<le> round_float64 q" "round_float64 q \<le> q + q / 2 ^ 53"
    by linarith+
  then show "q * (1 - 1 / 2 ^ 53) \<le> round_float64 q" "round_float64 q \<le> q * (1 + 1 / 2 ^ 53)"
    by (simp_all add: algebra_simps)
qed

lemma harmonic_mean_between:
  fixes p r :: rat
  assumes "0 < p" "0 < r"
  shows "min p r \<le> 2 * (p * r) / (p + r)" "2 * (p * r) / (p + r) \<le> max p r"
proof -
  have s: "0 < p + r" using assms by linarith
  have "min p r * (p + r) \<le> 2 * (p * r)"
  proof (cases "p \<le> r")
    case True
    then have "p * p \<le> p * r" using assms by (intro mult_left_mono) simp_all
    then show ?thesis using True by (simp add: min_def algebra_simps)
  next
    case False
    then have "r * r \<le> r * p" using assms by (intro mult_left_mono) simp_all
    then show ?thesis using False by (simp add: min_def algebra_simps)
  qed
  then show "min p r \<le> 2 * (p * r) / (p + r)" using s by (simp add: pos_le_divide_eq)
  have "2 * (p * r) \<le> max p r * (p + r)"
  proof (cases "p \<le> r")
    case True
    then have "p * r \<le> r * r" using assms by (intro mult_right_mono) simp_all
    then show ?thesis using True by (simp add: max_def algebra_simps)
  next
    case False
    then have "r * p \<le> p * p" using assms by (intro mult_right_mono) simp_all
    then show ?thesis using False by (simp add: max_def algebra_simps)
  qed
  then show "2 * (p * r) / (p + r) \<le> max p r" using s by (simp add: pos_divide_le_eq)
qed

lemma f1_rounding_bounds:
  assumes "0 < p" "0 < r"
  shows "\<exists>f. float64_mul (Fin 2)
               (float64_div (float64_mul (Fin p) (Fin r)) (float64_add (Fin p) (Fin r))) = Fin f
           \<and> (1 - 1 / 2 ^ 50) * min p r \<le> f \<and> f \<le> (1 + 1 / 2 ^ 50) * max p r"
proof -
  define u :: rat where "u = 1 / 2 ^ 53"
  define A where "A = round_float64 (p * r)"
  define B where "B = round_float64 (p + r)"
  define C where "C = round_float64 (A / B)"
  define F where "F = round_float64 (2 * C)"
  define H where "H = 2 * (p * r) / (p + r)"
  have u: "0 < u" "u < 1" by (simp_all add: u_def)
  have pr: "0 < p * r" and s: "0 < p + r" using assms by simp_all
  have Apos: "0 < A" unfolding A_def using pr by (rule round_float64_pos)
  have Bpos: "0 < B" unfolding B_def using s by (rule round_float64_pos)
  have AB: "0 < A / B" using Apos Bpos by simp
  have Cpos: "0 < C" unfolding C_def using AB by (rule round_float64_pos)
  have C2: "0 < 2 * C" using Cpos by simp
  have Hpos: "0 < H" unfolding H_def using pr s by simp
  have Ab: "p * r * (1 - u) \<le> A" "A \<le> p * r * (1 + u)"
    unfolding A_def u_def using round_float64_relative [OF pr] by simp_all
  have Bb: "(p + r) * (1 - u) \<le> B" "B \<le> (p + r) * (1 + u)"
    unfolding B_def u_def using round_float64_relative [OF s] by simp_all
  have Cb: "A / B * (1 - u) \<le> C" "C \<le> A / B * (1 + u)"
    unfolding C_def u_def using round_float64_relative [OF AB] by simp_all
  have Fb: "2 * C * (1 - u) \<le> F" "F \<le> 2 * C * (1 + u)"
    unfolding F_def u_def using round_float64_relative [OF C2] by simp_all
  have eq: "float64_mul (Fin 2)
               (float64_div (float64_mul (Fin p) (Fin r)) (float64_add (Fin p) (Fin r))) = Fin F"
    using Bpos by (simp add: A_def B_def C_def F_def)
  \<comment> \<open>the quotient of the two rounded numbers\<close>
  have q_hi: "A / B \<le> (p * r * (1 + u)) / ((p + r) * (1 - u))"
    using Apos Ab(2) Bb(1) s u by (intro frac_le) simp_all
  have q_lo: "(p * r * (1 - u)) / ((p + r) * (1 + u)) \<le> A / B"
    using Ab(1) Bb(2) Apos Bpos pr u by (intro frac_le) simp_all
  have hi_id: "2 * ((p * r * (1 + u)) / ((p + r) * (1 - u)) * (1 + u)) * (1 + u)
               = H * ((1 + u) ^ 3 / (1 - u))"
    using s u by (simp add: H_def power3_eq_cube)
  have lo_id: "2 * ((p * r * (1 - u)) / ((p + r) * (1 + u)) * (1 - u)) * (1 - u)
               = H * ((1 - u) ^ 3 / (1 + u))"
    using s u by (simp add: H_def power3_eq_cube)
  have K_hi: "(1 + u) ^ 3 / (1 - u) \<le> 1 + 1 / 2 ^ 50"
    by (simp add: u_def power3_eq_cube)
  have K_lo: "1 - 1 / 2 ^ 50 \<le> (1 - u) ^ 3 / (1 + u)"
    by (simp add: u_def power3_eq_cube)
  have "F \<le> 2 * C * (1 + u)" by (rule Fb(2))
  also have "\<dots> \<le> 2 * (A / B * (1 + u)) * (1 + u)"
    using Cb(2) u by (intro mult_right_mono mult_left_mono) simp_all
  also have "\<dots> \<le> 2 * ((p * r * (1 + u)) / ((p + r) * (1 - u)) * (1 + u)) * (1 + u)"
    using q_hi u by (intro mult_right_mono mult_left_mono) simp_all
  also have "\<dots> = H * ((1 + u) ^ 3 / (1 - u))" by (rule hi_id)
  also have "\<dots> \<le> H * (1 + 1 / 2 ^ 50)"
    using K_hi Hpos by (intro mult_left_mono) simp_all
  also have "\<dots> \<le> max p r * (1 + 1 / 2 ^ 50)"
    using harmonic_mean_between(2) [OF assms] unfolding H_def
    by (intro mult_right_mono) simp_all
  finally have upper: "F \<le> (1 + 1 / 2 ^ 50) * max p r" by (simp add: mult.commute)
  have "min p r * (1 - 1 / 2 ^ 50) \<le> H * (1 - 1 / 2 ^ 50)"
    using harmonic_mean_between(1) [OF assms] unfolding H_def
    by (intro mult_right_mono) simp_all
  also have "\<dots> \<le> H * ((1 - u) ^ 3 / (1 + u))"
    using K_lo Hpos by (intro mult_left_mono) simp_all
  also have "\<dots> = 2 * ((p * r * (1 - u)) / ((p + r) * (1 + u)) * (1 - u)) * (1 - u)"
    by (rule lo_id [symmetric])
  also have "\<dots> \<le> 2 * (A / B * (1 - u)) * (1 - u)"
    using q_lo u by (intro mult_right_mono mult_left_mono) simp_all
  also have "\<dots> \<le> 2 * C * (1 - u)"
    using Cb(1) u by (intro mult_right_mono mult_left_mono) simp_all
  also have "\<dots> \<le> F" by (rule Fb(1))
  finally have lower: "(1 - 1 / 2 ^ 50) * min p r \<le> F" by (simp add: mult.commute)
  from eq lower upper show ?thesis by (intro exI conjI)
qed

section \<open>Zero denominators\<close>

lemma np_true_divide_zero_zero: "np_true_divide 0 0 = NaN"
  by (simp add: np_true_divide_def float64_of_int_def round_float64_zero)

lemma TP_count_no_observed_positive:
  assumes "1 \<notin> set observed"
  shows "TP_count observed predicted = 0"
proof -
  have "observed ! i \<noteq> 1" if "i < length observed" for i
    using assms that nth_mem [of i observed] by metis
  then have "filter (\<lambda>i. predicted ! i = 1 \<and> observed ! i = 1) [0..<length observed] = []"
    by (simp add: filter_empty_conv)
  then show ?thesis by (simp add: TP_count_def count_indices_def)
qed

lemma count_list_no_positive: "1 \<notin> set observed \<Longrightarrow> int (count_list observed 1) = 0"
  by (simp add: count_list_0_iff)

lemma float64_nan_simps:
  "float64_mul x NaN = NaN" "float64_add x NaN = NaN" "float64_sub x NaN = NaN"
  "float64_div x NaN = NaN"
  by (cases x; simp add: float64_sub_def)+

lemma TN_count_no_observed_negative:
  assumes "0 \<notin> set observed"
  shows "TN_count observed predicted = 0"
proof -
  have "observed ! i \<noteq> 0" if "i < length observed" for i
    using assms that nth_mem [of i observed] by metis
  then have "filter (\<lambda>i. predicted ! i = 0 \<and> observed ! i = 0) [0..<length observed] = []"
    by (simp add: filter_empty_conv)
  then show ?thesis by (simp add: TN_count_def count_indices_def)
qed

lemma np_true_divide_counts:
  assumes "0 \<le> a" "a \<le> int n" "0 < k" "k \<le> n" "n < 2 ^ 53"
  shows "np_true_divide a (int k) = Fin (round_float64 (of_int a / of_int (int k)))"
proof -
  have n: "int n < 2 ^ 53" using assms(5) by simp
  have a: "a < 2 ^ 53" using assms(2) n by linarith
  have k: "int k < 2 ^ 53" using assms(4) n by linarith
  have kpos: "0 < int k" using assms(3) by simp
  show ?thesis using assms(1) a kpos k by (rule np_true_divide_exact_quotient)
qed

section \<open>Two evaluations\<close>

text \<open>The demonstration of the notebook calls the function with
  \<open>observed = [0, 0, 1, 0, 1, 0, 1, 0, 1, 0]\<close> and
  \<open>predicted = [0, 0, 1, 0, 1, 0, 1, 0, 0, 1]\<close>. Two of the measures it returns differ in
  the last bits from the numbers one computes by hand: \<open>1 - specificity\<close> is computed from
  the double nearest to \<open>5/6\<close>, so it is \<open>0.16666666666666663\<close>, not the double nearest to
  \<open>1/6\<close>, and dividing \<open>0.75\<close> by it gives \<open>4.500000000000001\<close>.\<close>

lemma demonstration_positive_likelihood:
  "metric (calculate_accuracy [0, 0, 1, 0, 1, 0, 1, 0, 1, 0] [0, 0, 1, 0, 1, 0, 1, 0, 0, 1])
     ''positive_likelihood'' = Some (Fin (9 / 2 + 1 / 2 ^ 50))"
proof -
  have len: "length [0, 0, 1, 0, 1, 0, 1, 0, 1, 0 :: int]
             = length [0, 0, 1, 0, 1, 0, 1, 0, 0, 1 :: int]" by simp
  show ?thesis unfolding metric_positive_likelihood [OF len] by code_simp
qed

lemma demonstration_false_positive_rate:
  "metric (calculate_accuracy [0, 0, 1, 0, 1, 0, 1, 0, 1, 0] [0, 0, 1, 0, 1, 0, 1, 0, 0, 1])
     ''false_positive_rate'' = Some (Fin (round_float64 (1 / 6) - 1 / 2 ^ 55))"
proof -
  have len: "length [0, 0, 1, 0, 1, 0, 1, 0, 1, 0 :: int]
             = length [0, 0, 1, 0, 1, 0, 1, 0, 0, 1 :: int]" by simp
  show ?thesis unfolding metric_false_positive_rate [OF len] by code_simp
qed

text \<open>With \<open>observed = [0, 1, 1, 1, 1, 1]\<close> and \<open>predicted = [1, 0, 1, 1, 1, 1]\<close> there
  are four true positives, one false positive and five observed positives: precision and
  recall are both the double \<open>0.8\<close>, and the computed \<open>f1\<close> is the next double above,
  \<open>0.8000000000000002\<close>.\<close>

lemma harmonic_example_precision:
  "metric (calculate_accuracy [0, 1, 1, 1, 1, 1] [1, 0, 1, 1, 1, 1]) ''precision''
   = Some (Fin (round_float64 (4 / 5)))"
proof -
  have len: "length [0, 1, 1, 1, 1, 1 :: int] = length [1, 0, 1, 1, 1, 1 :: int]" by simp
  show ?thesis unfolding metric_precision [OF len] by code_simp
qed

lemma harmonic_example_recall:
  "metric (calculate_accuracy [0, 1, 1, 1, 1, 1] [1, 0, 1, 1, 1, 1]) ''recall''
   = Some (Fin (round_float64 (4 / 5)))"
proof -
  have len: "length [0, 1, 1, 1, 1, 1 :: int] = length [1, 0, 1, 1, 1, 1 :: int]" by simp
  show ?thesis unfolding metric_recall [OF len] by code_simp
qed

lemma harmonic_example_f1:
  "metric (calculate_accuracy [0, 1, 1, 1, 1, 1] [1, 0, 1, 1, 1, 1]) ''f1''
   = Some (Fin (round_float64 (4 / 5) + 1 / 2 ^ 53))"
proof -
  have len: "length [0, 1, 1, 1, 1, 1 :: int] = length [1, 0, 1, 1, 1, 1 :: int]" by simp
  show ?thesis unfolding metric_f1 [OF len] by code_simp
qed

lemma round_float64_four_fifths: "round_float64 (4 / 5) = 3602879701896397 / 4503599627370496"
  by code_simp

section \<open>The claims of the specification\<close>

text \<open>
  In the statements below \<open>metric (calculate_accuracy observed predicted) key\<close> is the
  measure stored under \<open>key\<close>; for each of the eighteen keys it is \<open>Some\<close> value exactly
  when the call returned a dictionary. A finite measure \<open>Fin a\<close> is a double with the exact
  rational value \<open>a\<close>. A number of the specification such as \<open>0.8\<close> or \<open>(TP + TN) / N\<close>
  is read as Python evaluates it: it stands for the double nearest to the exact value,
  \<open>round_float64 (8 / 10)\<close> for \<open>0.8\<close>.
\<close>

subsection \<open>C1: accuracy\<close>

text \<open>
  Claim C1. For every pair of equal-length non-empty sequences \<open>observed\<close> and
  \<open>predicted\<close> with all elements in \<open>{0, 1}\<close>, the \<open>accuracy\<close> returned by
  \<open>calculate_accuracy\<close> lies in \<open>[0, 1]\<close> and equals exactly \<open>(TP + TN) / N\<close>, where
  \<open>TP\<close> counts the indices with predicted 1 and observed 1, \<open>TN\<close> those with predicted 0
  and observed 0, and \<open>N\<close> is the common length. The quotient is the one NumPy computes for
  the two integers, \<open>np_true_divide\<close>; for fewer than \<open>2\<^sup>5\<^sup>3\<close> cases this is the double
  nearest to the exact quotient.
\<close>

theorem accuracy_equals_tp_plus_tn_over_n:
  assumes "length observed = length predicted" and "observed \<noteq> []"
    and "valid_labels observed" and "valid_labels predicted"
  shows "\<exists>a. metric (calculate_accuracy observed predicted) ''accuracy'' = Some (Fin a)
           \<and> 0 \<le> a \<and> a \<le> 1
           \<and> Fin a = np_true_divide (TP_count observed predicted + TN_count observed predicted)
                        (int (length observed))
           \<and> (length observed < 2 ^ 53 \<longrightarrow>
                a = round_float64
                      (of_int (TP_count observed predicted + TN_count observed predicted)
                       / of_int (int (length observed))))"
proof -
  let ?c = "TP_count observed predicted + TN_count observed predicted"
  let ?n = "int (length observed)"
  have c: "count_indices (\<lambda>ob p. p = ob) observed predicted = ?c"
    using assms(1,3,4) by (rule correct_count_eq_TP_plus_TN)
  have c0: "0 \<le> ?c" and cn: "?c \<le> ?n"
    using count_indices_nonneg [of "\<lambda>ob p. p = ob" observed predicted]
      count_indices_le_length [of "\<lambda>ob p. p = ob" observed predicted]
    unfolding c by simp_all
  have npos: "0 < ?n" using assms(2) by simp
  obtain a where a: "np_true_divide ?c ?n = Fin a" "0 \<le> a" "a \<le> 1"
    using np_true_divide_unit_interval [OF c0 cn npos] by blast
  have m: "metric (calculate_accuracy observed predicted) ''accuracy'' = Some (Fin a)"
    using metric_accuracy [OF assms(1)] a(1) by (simp add: c)
  have r: "a = round_float64 (of_int ?c / of_int ?n)" if "length observed < 2 ^ 53"
  proof -
    have "?n < 2 ^ 53" using that by (rule int_length_bound)
    then have "np_true_divide ?c ?n = Fin (round_float64 (of_int ?c / of_int ?n))"
      using c0 cn npos by (intro np_true_divide_exact_quotient) simp_all
    with a(1) show ?thesis by simp
  qed
  show ?thesis
  proof (intro exI conjI impI)
    show "metric (calculate_accuracy observed predicted) ''accuracy'' = Some (Fin a)" by (rule m)
    show "0 \<le> a" by (rule a(2))
    show "a \<le> 1" by (rule a(3))
    show "Fin a = np_true_divide ?c ?n" by (rule a(1) [symmetric])
    show "a = round_float64 (of_int ?c / of_int ?n)" if "length observed < 2 ^ 53"
      using that by (rule r)
  qed
qed


theorem accuracy_equals_tp_plus_tn_over_n_witness:
  "length [0, 1, 1, 0 :: int] = length [0, 1, 0, 1 :: int]
   \<and> [0, 1, 1, 0 :: int] \<noteq> []
   \<and> valid_labels [0, 1, 1, 0] \<and> valid_labels [0, 1, 0, 1]
   \<and> (\<exists>a. metric (calculate_accuracy [0, 1, 1, 0] [0, 1, 0, 1]) ''accuracy'' = Some (Fin a)
           \<and> 0 \<le> a \<and> a \<le> 1
           \<and> Fin a = np_true_divide (TP_count [0, 1, 1, 0] [0, 1, 0, 1]
                                      + TN_count [0, 1, 1, 0] [0, 1, 0, 1])
                        (int (length [0, 1, 1, 0 :: int]))
           \<and> (length [0, 1, 1, 0 :: int] < 2 ^ 53 \<longrightarrow>
                a = round_float64
                      (of_int (TP_count [0, 1, 1, 0] [0, 1, 0, 1]
                               + TN_count [0, 1, 1, 0] [0, 1, 0, 1])
                       / of_int (int (length [0, 1, 1, 0 :: int])))))"
proof -
  have h1: "length [0, 1, 1, 0 :: int] = length [0, 1, 0, 1 :: int]" by simp
  have h2: "[0, 1, 1, 0 :: int] \<noteq> []" by simp
  have h3: "valid_labels [0, 1, 1, 0]" by (simp add: valid_labels_def)
  have h4: "valid_labels [0, 1, 0, 1]" by (simp add: valid_labels_def)
  show ?thesis
    using h1 h2 h3 h4 accuracy_equals_tp_plus_tn_over_n [OF h1 h2 h3 h4]
    by (intro conjI)
qed

subsection \<open>C2: the demonstration of the notebook\<close>

text \<open>
  The numbers of the claim are read as Python reads them: \<open>0.8\<close> is the double nearest to
  \<open>8/10\<close>, and \<open>1/6\<close> the double nearest to \<open>1/6\<close>. Read so, seven of the nine values are
  returned exactly. The other two are not: the returned \<open>positive_likelihood\<close> is not
  \<open>4.5\<close> and the returned \<open>false_positive_rate\<close> is not the double \<open>1/6\<close>. (The notebook
  prints three significant digits, \<open>4.5\<close> and \<open>0.167\<close>.)
\<close>

theorem demonstration_last_bit_counterexample:
  "metric (calculate_accuracy [0, 0, 1, 0, 1, 0, 1, 0, 1, 0] [0, 0, 1, 0, 1, 0, 1, 0, 0, 1])
     ''positive_likelihood'' \<noteq> Some (Fin (9 / 2))
   \<and> metric (calculate_accuracy [0, 0, 1, 0, 1, 0, 1, 0, 1, 0] [0, 0, 1, 0, 1, 0, 1, 0, 0, 1])
     ''false_positive_rate'' \<noteq> Some (Fin (round_float64 (1 / 6)))"
  unfolding demonstration_positive_likelihood demonstration_false_positive_rate by simp

text \<open>
  Claim C2, as amended. Calling \<open>calculate_accuracy\<close> with
  \<open>observed = [0, 0, 1, 0, 1, 0, 1, 0, 1, 0]\<close> and
  \<open>predicted = [0, 0, 1, 0, 1, 0, 1, 0, 0, 1]\<close> returns \<open>accuracy = 0.8\<close>,
  \<open>precision = 0.75\<close>, \<open>recall = 0.75\<close>, \<open>f1 = 0.75\<close>, \<open>specificity = 5/6\<close> (the double
  \<open>0.8333333333333334\<close>), \<open>positive_likelihood = 4.5 + 2\<^sup>-\<^sup>5\<^sup>0\<close> (the double
  \<open>4.500000000000001\<close>), \<open>negative_likelihood = 0.3\<close>, \<open>false_positive_rate\<close> equal to the
  double \<open>1/6\<close> less \<open>2\<^sup>-\<^sup>5\<^sup>5\<close> (the double \<open>0.16666666666666663\<close>), and
  \<open>false_negative_rate = 0.25\<close>.
\<close>

theorem demonstration_values:
  "metric (calculate_accuracy [0, 0, 1, 0, 1, 0, 1, 0, 1, 0] [0, 0, 1, 0, 1, 0, 1, 0, 0, 1])
     ''accuracy'' = Some (Fin (round_float64 (8 / 10)))
   \<and> metric (calculate_accuracy [0, 0, 1, 0, 1, 0, 1, 0, 1, 0] [0, 0, 1, 0, 1, 0, 1, 0, 0, 1])
     ''precision'' = Some (Fin (3 / 4))
   \<and> metric (calculate_accuracy [0, 0, 1, 0, 1, 0, 1, 0, 1, 0] [0, 0, 1, 0, 1, 0, 1, 0, 0, 1])
     ''recall'' = Some (Fin (3 / 4))
   \<and> metric (calculate_accuracy [0, 0, 1, 0, 1, 0, 1, 0, 1, 0] [0, 0, 1, 0, 1, 0, 1, 0, 0, 1])
     ''f1'' = Some (Fin (3 / 4))
   \<and> metric (calculate_accuracy [0, 0, 1, 0, 1, 0, 1, 0, 1, 0] [0, 0, 1, 0, 1, 0, 1, 0, 0, 1])
     ''specificity'' = Some (Fin (round_float64 (5 / 6)))
   \<and> metric (calculate_accuracy [0, 0, 1, 0, 1, 0, 1, 0, 1, 0] [0, 0, 1, 0, 1, 0, 1, 0, 0, 1])
     ''positive_likelihood'' = Some (Fin (9 / 2 + 1 / 2 ^ 50))
   \<and> metric (calculate_accuracy [0, 0, 1, 0, 1, 0, 1, 0, 1, 0] [0, 0, 1, 0, 1, 0, 1, 0, 0, 1])
     ''negative_likelihood'' = Some (Fin (round_float64 (3 / 10)))
   \<and> metric (calculate_accuracy [0, 0, 1, 0, 1, 0, 1, 0, 1, 0] [0, 0, 1, 0, 1, 0, 1, 0, 0, 1])
     ''false_positive_rate'' = Some (Fin (round_float64 (1 / 6) - 1 / 2 ^ 55))
   \<and> metric (calculate_accuracy [0, 0, 1, 0, 1, 0, 1, 0, 1, 0] [0, 0, 1, 0, 1, 0, 1, 0, 0, 1])
     ''false_negative_rate'' = Some (Fin (1 / 4))"
proof -
  have len: "length [0, 0, 1, 0, 1, 0, 1, 0, 1, 0 :: int]
             = length [0, 0, 1, 0, 1, 0, 1, 0, 0, 1 :: int]" by simp
  show ?thesis
  proof (intro conjI)
    show "metric (calculate_accuracy [0, 0, 1, 0, 1, 0, 1, 0, 1, 0]
                                     [0, 0, 1, 0, 1, 0, 1, 0, 0, 1])
            ''accuracy'' = Some (Fin (round_float64 (8 / 10)))"
      unfolding metric_accuracy [OF len] by code_simp
    show "metric (calculate_accuracy [0, 0, 1, 0, 1, 0, 1, 0, 1, 0]
                                     [0, 0, 1, 0, 1, 0, 1, 0, 0, 1])
            ''precision'' = Some (Fin (3 / 4))"
      unfolding metric_precision [OF len] by code_simp
    show "metric (calculate_accuracy [0, 0, 1, 0, 1, 0, 1, 0, 1, 0]
                                     [0, 0, 1, 0, 1, 0, 1, 0, 0, 1])
            ''recall'' = Some (Fin (3 / 4))"
      unfolding metric_recall [OF len] by code_simp
    show "metric (calculate_accuracy [0, 0, 1, 0, 1, 0, 1, 0, 1, 0]
                                     [0, 0, 1, 0, 1, 0, 1, 0, 0, 1])
            ''f1'' = Some (Fin (3 / 4))"
      unfolding metric_f1 [OF len] by code_simp
    show "metric (calculate_accuracy [0, 0, 1, 0, 1, 0, 1, 0, 1, 0]
                                     [0, 0, 1, 0, 1, 0, 1, 0, 0, 1])
            ''specificity'' = Some (Fin (round_float64 (5 / 6)))"
      unfolding metric_specificity [OF len] by code_simp
    show "metric (calculate_accuracy [0, 0, 1, 0, 1, 0, 1, 0, 1, 0]
                                     [0, 0, 1, 0, 1, 0, 1, 0, 0, 1])
            ''positive_likelihood'' = Some (Fin (9 / 2 + 1 / 2 ^ 50))"
      by (rule demonstration_positive_likelihood)
    show "metric (calculate_accuracy [0, 0, 1, 0, 1, 0, 1, 0, 1, 0]
                                     [0, 0, 1, 0, 1, 0, 1, 0, 0, 1])
            ''negative_likelihood'' = Some (Fin (round_float64 (3 / 10)))"
      unfolding metric_negative_likelihood [OF len] by code_simp
    show "metric (calculate_accuracy [0, 0, 1, 0, 1, 0, 1, 0, 1, 0]
                                     [0, 0, 1, 0, 1, 0, 1, 0, 0, 1])
            ''false_positive_rate'' = Some (Fin (round_float64 (1 / 6) - 1 / 2 ^ 55))"
      by (rule demonstration_false_positive_rate)
    show "metric (calculate_accuracy [0, 0, 1, 0, 1, 0, 1, 0, 1, 0]
                                     [0, 0, 1, 0, 1, 0, 1, 0, 0, 1])
            ''false_negative_rate'' = Some (Fin (1 / 4))"
      unfolding metric_false_negative_rate [OF len] by code_simp
  qed
qed

subsection \<open>C3: zero denominators\<close>

text \<open>
  The function raises nothing when a denominator is zero: NumPy's division of \<open>0\<close> by \<open>0\<close>
  yields \<open>nan\<close> (and prints a warning), and the \<open>nan\<close> is stored in the dictionary. With
  \<open>observed = [1, 1, 1]\<close> and \<open>predicted = [0, 0, 0]\<close> the returned \<open>precision\<close> is
  \<open>nan\<close> (and \<open>recall\<close> is 0); with \<open>observed = [0, 0, 0]\<close> the returned \<open>recall\<close> is
  \<open>nan\<close>.
\<close>

theorem zero_denominator_returns_nan_counterexample:
  "metric (calculate_accuracy [1, 1, 1] [0, 0, 0]) ''precision'' = Some NaN
   \<and> metric (calculate_accuracy [1, 1, 1] [0, 0, 0]) ''recall'' = Some (Fin 0)
   \<and> metric (calculate_accuracy [0, 0, 0] [0, 1, 0]) ''recall'' = Some NaN"
proof -
  have len: "length [1, 1, 1 :: int] = length [0, 0, 0 :: int]" by simp
  have len': "length [0, 0, 0 :: int] = length [0, 1, 0 :: int]" by simp
  have a: "metric (calculate_accuracy [1, 1, 1] [0, 0, 0]) ''precision'' = Some NaN"
    unfolding metric_precision [OF len] by code_simp
  have b: "metric (calculate_accuracy [1, 1, 1] [0, 0, 0]) ''recall'' = Some (Fin 0)"
    unfolding metric_recall [OF len] by code_simp
  have c: "metric (calculate_accuracy [0, 0, 0] [0, 1, 0]) ''recall'' = Some NaN"
    unfolding metric_recall [OF len'] by code_simp
  show ?thesis by (intro conjI a b c)
qed

text \<open>
  Claim C3, as amended. For every input of equal lengths, \<open>calculate_accuracy\<close> returns its
  dictionary without raising or flagging an error, and the affected measures are \<open>nan\<close>:
  where the observed sequence contains no positive label, these are \<open>recall\<close>,
  \<open>sensitivity\<close>, \<open>true_positive_rate\<close>, \<open>positive_predictive_value\<close>, \<open>f1\<close>, both
  likelihoods and \<open>false_negative_rate\<close>; where the precision denominator \<open>TP + FP\<close> is
  zero, these are \<open>precision\<close> and \<open>f1\<close>.
\<close>

theorem zero_denominator_returns_nan:
  assumes len: "length observed = length predicted"
  shows "(1 \<notin> set observed \<longrightarrow>
            metric (calculate_accuracy observed predicted) ''recall'' = Some NaN
          \<and> metric (calculate_accuracy observed predicted) ''sensitivity'' = Some NaN
          \<and> metric (calculate_accuracy observed predicted) ''true_positive_rate'' = Some NaN
          \<and> metric (calculate_accuracy observed predicted) ''positive_predictive_value''
              = Some NaN
          \<and> metric (calculate_accuracy observed predicted) ''f1'' = Some NaN
          \<and> metric (calculate_accuracy observed predicted) ''positive_likelihood'' = Some NaN
          \<and> metric (calculate_accuracy observed predicted) ''negative_likelihood'' = Some NaN
          \<and> metric (calculate_accuracy observed predicted) ''false_negative_rate'' = Some NaN)
       \<and> (TP_count observed predicted + FP_count observed predicted = 0 \<longrightarrow>
            metric (calculate_accuracy observed predicted) ''precision'' = Some NaN
          \<and> metric (calculate_accuracy observed predicted) ''f1'' = Some NaN)"
proof (intro conjI impI)
  assume no: "1 \<notin> set observed"
  have rec: "np_true_divide (TP_count observed predicted) (int (count_list observed 1)) = NaN"
    unfolding TP_count_no_observed_positive [OF no] count_list_no_positive [OF no]
    by (rule np_true_divide_zero_zero)
  show "metric (calculate_accuracy observed predicted) ''recall'' = Some NaN"
    unfolding metric_recall [OF len] rec ..
  show "metric (calculate_accuracy observed predicted) ''sensitivity'' = Some NaN"
    unfolding metric_sensitivity [OF len] rec ..
  show "metric (calculate_accuracy observed predicted) ''true_positive_rate'' = Some NaN"
    unfolding metric_true_positive_rate [OF len] rec ..
  show "metric (calculate_accuracy observed predicted) ''positive_predictive_value'' = Some NaN"
    unfolding metric_positive_predictive_value [OF len] rec ..
  show "metric (calculate_accuracy observed predicted) ''f1'' = Some NaN"
    unfolding metric_f1 [OF len] rec by (simp add: float64_nan_simps)
  show "metric (calculate_accuracy observed predicted) ''positive_likelihood'' = Some NaN"
    unfolding metric_positive_likelihood [OF len] rec by simp
  show "metric (calculate_accuracy observed predicted) ''negative_likelihood'' = Some NaN"
    unfolding metric_negative_likelihood [OF len] rec by (simp add: float64_nan_simps)
  show "metric (calculate_accuracy observed predicted) ''false_negative_rate'' = Some NaN"
    unfolding metric_false_negative_rate [OF len] rec by (simp add: float64_nan_simps)
next
  assume z: "TP_count observed predicted + FP_count observed predicted = 0"
  have "0 \<le> TP_count observed predicted" "0 \<le> FP_count observed predicted"
    unfolding TP_count_def FP_count_def by (rule count_indices_nonneg)+
  with z have tp: "TP_count observed predicted = 0" by linarith
  have prec: "np_true_divide (TP_count observed predicted)
                (TP_count observed predicted + FP_count observed predicted) = NaN"
    unfolding z unfolding tp by (rule np_true_divide_zero_zero)
  show "metric (calculate_accuracy observed predicted) ''precision'' = Some NaN"
    unfolding metric_precision [OF len] prec ..
  show "metric (calculate_accuracy observed predicted) ''f1'' = Some NaN"
    unfolding metric_f1 [OF len] prec by simp
qed

theorem zero_denominator_returns_nan_witness:
  "length [0, 0 :: int] = length [0, 0 :: int]
   \<and> 1 \<notin> set [0, 0 :: int]
   \<and> TP_count [0, 0] [0, 0] + FP_count [0, 0] [0, 0] = 0
   \<and> metric (calculate_accuracy [0, 0] [0, 0]) ''recall'' = Some NaN
   \<and> metric (calculate_accuracy [0, 0] [0, 0]) ''precision'' = Some NaN
   \<and> metric (calculate_accuracy [0, 0] [0, 0]) ''f1'' = Some NaN"
proof -
  have len: "length [0, 0 :: int] = length [0, 0 :: int]" by simp
  have no: "1 \<notin> set [0, 0 :: int]" by simp
  have z: "TP_count [0, 0] [0, 0] + FP_count [0, 0] [0, 0] = 0" by code_simp
  note t = zero_denominator_returns_nan [OF len]
  note a = t [THEN conjunct1, rule_format, OF no]
  note b = t [THEN conjunct2, rule_format, OF z]
  show ?thesis
    by (intro conjI len no z a [THEN conjunct1] b [THEN conjunct1] b [THEN conjunct2])
qed

subsection \<open>C4: sequences of different lengths\<close>

text \<open>
  The function never compares the two lengths. NumPy does, when the first two masks are
  combined with \<open>&\<close>, and it accepts a length of one on either side: with
  \<open>observed = [1]\<close> and \<open>predicted = [1, 0, 1]\<close> the single observed label is stretched
  over the three predictions and a dictionary is returned, in which \<open>recall\<close> is 2.
\<close>

theorem broadcast_length_one_counterexample:
  "length [1 :: int] \<noteq> length [1, 0, 1 :: int]
   \<and> metric (calculate_accuracy [1] [1, 0, 1]) ''recall'' = Some (Fin 2)"
proof -
  have tp: "true_positives [1] [1, 0, 1] = Inr [True, False, True]" by code_simp
  have fp: "false_positives [1] [1, 0, 1] = Inr [False, False, False]" by code_simp
  have tn: "true_negatives [1] [1, 0, 1] = Inr [False, False, False]" by code_simp
  have fn: "false_negatives [1] [1, 0, 1] = Inr [False, True, False]" by code_simp
  have c: "np_eq [1, 0, 1] [1] = Inr [True, False, True]" by code_simp
  have v: "np_true_divide (np_sum [True, False, True]) (np_sum (observed_positives [1])) = Fin 2"
    by code_simp
  show ?thesis
    unfolding metric_recall_from_masks [OF tp fp tn fn c] v by simp
qed

text \<open>
  Claim C4, as amended. For every pair of input sequences whose lengths differ and are both
  different from one, \<open>calculate_accuracy\<close> fails with NumPy's \<open>ValueError\<close>, raised by
  the first mask combination (\<open>true_positives\<close>) before any measure is computed; when the
  lengths differ and one of them is one, the call does not fail and returns the dictionary
  with all eighteen keys.
\<close>

theorem different_lengths_raise_unless_broadcast:
  assumes "length observed \<noteq> length predicted"
  shows "(length observed \<noteq> 1 \<and> length predicted \<noteq> 1 \<longrightarrow>
            true_positives observed predicted = Inl ValueError
          \<and> calculate_accuracy observed predicted = Inl ValueError)
       \<and> (length observed = 1 \<or> length predicted = 1 \<longrightarrow>
            (\<exists>res. calculate_accuracy observed predicted = Inr res
                   \<and> map fst res = result_keys))"
proof (intro conjI impI)
  assume "length observed \<noteq> 1 \<and> length predicted \<noteq> 1"
  then have o: "length observed \<noteq> 1" and p: "length predicted \<noteq> 1" by simp_all
  show "true_positives observed predicted = Inl ValueError"
    using assms o p by (rule true_positives_raises)
  show "calculate_accuracy observed predicted = Inl ValueError"
    using assms o p by (rule calculate_accuracy_raises)
next
  assume "length observed = 1 \<or> length predicted = 1"
  then have "length observed = length predicted \<or> length observed = 1 \<or> length predicted = 1"
    by simp
  then show "\<exists>res. calculate_accuracy observed predicted = Inr res \<and> map fst res = result_keys"
    by (rule calculate_accuracy_returns)
qed

theorem different_lengths_raise_unless_broadcast_witness:
  "length [1, 0 :: int] \<noteq> length [1, 0, 1 :: int]
   \<and> length [1, 0 :: int] \<noteq> 1 \<and> length [1, 0, 1 :: int] \<noteq> 1
   \<and> true_positives [1, 0] [1, 0, 1] = Inl ValueError
   \<and> calculate_accuracy [1, 0] [1, 0, 1] = Inl ValueError
   \<and> length [1 :: int] \<noteq> length [1, 0, 1 :: int]
   \<and> length [1 :: int] = 1
   \<and> (\<exists>res. calculate_accuracy [1] [1, 0, 1] = Inr res \<and> map fst res = result_keys)"
proof -
  have h1: "length [1, 0 :: int] \<noteq> length [1, 0, 1 :: int]" by simp
  have h2: "length [1, 0 :: int] \<noteq> 1 \<and> length [1, 0, 1 :: int] \<noteq> 1" by simp
  have h3: "length [1 :: int] \<noteq> length [1, 0, 1 :: int]" by simp
  have h4: "length [1 :: int] = 1 \<or> length [1, 0, 1 :: int] = 1" by simp
  note a = different_lengths_raise_unless_broadcast [OF h1, THEN conjunct1, rule_format, OF h2]
  note b = different_lengths_raise_unless_broadcast [OF h3, THEN conjunct2, rule_format, OF h4]
  show ?thesis using h1 h2 h3 a b by simp
qed

subsection \<open>C5: labels outside 0 and 1 are not rejected\<close>

text \<open>
  The function has no check of the labels. With \<open>observed = [2, 1]\<close> and
  \<open>predicted = [0, 1]\<close> it returns a dictionary whose \<open>accuracy\<close> is 0.5.
\<close>

theorem invalid_label_accepted_counterexample:
  "\<not> valid_labels [2, 1] \<and> valid_labels [0, 1]
   \<and> metric (calculate_accuracy [2, 1] [0, 1]) ''accuracy'' = Some (Fin (1 / 2))"
proof -
  have len: "length [2, 1 :: int] = length [0, 1 :: int]" by simp
  have v: "np_true_divide (count_indices (\<lambda>ob p. p = ob) [2, 1] [0, 1])
             (int (length [2, 1 :: int])) = Fin (1 / 2)"
    by code_simp
  show ?thesis
    unfolding metric_accuracy [OF len] v by (simp add: valid_labels_def)
qed

text \<open>
  Claim C5, as amended. For every pair of equal-length input sequences in which some element
  of \<open>observed\<close> or \<open>predicted\<close> is not 0 and not 1, \<open>calculate_accuracy\<close> raises no
  error: it returns the dictionary with all eighteen keys.
\<close>

theorem invalid_labels_are_not_rejected:
  assumes "length observed = length predicted"
    and "\<not> valid_labels observed \<or> \<not> valid_labels predicted"
  shows "\<exists>res. calculate_accuracy observed predicted = Inr res \<and> map fst res = result_keys"
  using assms(1) by (intro calculate_accuracy_returns) simp

theorem invalid_labels_are_not_rejected_witness:
  "length [2, 1 :: int] = length [0, 1 :: int]
   \<and> \<not> valid_labels [2, 1]
   \<and> (\<exists>res. calculate_accuracy [2, 1] [0, 1] = Inr res \<and> map fst res = result_keys)"
proof -
  have h1: "length [2, 1 :: int] = length [0, 1 :: int]" by simp
  have h2: "\<not> valid_labels [2, 1]" by (simp add: valid_labels_def)
  have h3: "\<not> valid_labels [2, 1] \<or> \<not> valid_labels [0, 1]" using h2 by (rule disjI1)
  show ?thesis
    by (rule conjI [OF h1 conjI [OF h2 invalid_labels_are_not_rejected [OF h1 h3]]])
qed

subsection \<open>C6: the predictive values\<close>

text \<open>
  Claim C6. For every valid input, the returned \<open>positive_predictive_value\<close> equals \<open>TP\<close>
  divided by the number of observed positives, and so is identical to the returned
  \<open>recall\<close>; the returned \<open>negative_predictive_value\<close> equals \<open>TN\<close> divided by the
  number of observed negatives, and so is identical to the returned \<open>specificity\<close>. The
  theorem needs only that the two sequences have the same length. The quotient is the one
  NumPy computes for the two counts, and the theorem says which number that is: for fewer
  than \<open>2\<^sup>5\<^sup>3\<close> cases and a denominator that is not zero it is the double nearest to the
  exact quotient \<open>TP / P\<close> (or \<open>TN / N\<close>), and for a denominator of zero it is \<open>nan\<close>,
  the numerator being zero as well. With \<open>observed = [1, 1, 1, 0]\<close> and
  \<open>predicted = [1, 0, 0, 0]\<close> the returned \<open>positive_predictive_value\<close> is the double
  \<open>1/3\<close>, as \<open>recall\<close> is, while \<open>precision\<close> is 1. (The docstring of the function
  describes the two values as the chance of a true positive given a positive test and of a
  true negative given a negative test, which would be \<open>TP / (TP + FP)\<close> and
  \<open>TN / (TN + FN)\<close>; the claim states what the code computes.)
\<close>

theorem predictive_values_equal_recall_and_specificity:
  assumes "length observed = length predicted"
  shows "metric (calculate_accuracy observed predicted) ''positive_predictive_value''
           = Some (np_true_divide (TP_count observed predicted) (int (count_list observed 1)))
       \<and> metric (calculate_accuracy observed predicted) ''positive_predictive_value''
           = metric (calculate_accuracy observed predicted) ''recall''
       \<and> metric (calculate_accuracy observed predicted) ''negative_predictive_value''
           = Some (np_true_divide (TN_count observed predicted) (int (count_list observed 0)))
       \<and> metric (calculate_accuracy observed predicted) ''negative_predictive_value''
           = metric (calculate_accuracy observed predicted) ''specificity''
       \<and> (0 < count_list observed 1 \<and> length observed < 2 ^ 53 \<longrightarrow>
            metric (calculate_accuracy observed predicted) ''positive_predictive_value''
              = Some (Fin (round_float64 (of_int (TP_count observed predicted)
                                          / of_int (int (count_list observed 1))))))
       \<and> (count_list observed 1 = 0 \<longrightarrow>
            metric (calculate_accuracy observed predicted) ''positive_predictive_value''
              = Some NaN)
       \<and> (0 < count_list observed 0 \<and> length observed < 2 ^ 53 \<longrightarrow>
            metric (calculate_accuracy observed predicted) ''negative_predictive_value''
              = Some (Fin (round_float64 (of_int (TN_count observed predicted)
                                          / of_int (int (count_list observed 0))))))
       \<and> (count_list observed 0 = 0 \<longrightarrow>
            metric (calculate_accuracy observed predicted) ''negative_predictive_value''
              = Some NaN)"
proof (intro conjI impI)
  show "metric (calculate_accuracy observed predicted) ''positive_predictive_value''
          = Some (np_true_divide (TP_count observed predicted) (int (count_list observed 1)))"
    by (rule metric_positive_predictive_value [OF assms])
  show "metric (calculate_accuracy observed predicted) ''positive_predictive_value''
          = metric (calculate_accuracy observed predicted) ''recall''"
    unfolding metric_positive_predictive_value [OF assms] metric_recall [OF assms] ..
  show "metric (calculate_accuracy observed predicted) ''negative_predictive_value''
          = Some (np_true_divide (TN_count observed predicted) (int (count_list observed 0)))"
    by (rule metric_negative_predictive_value [OF assms])
  show "metric (calculate_accuracy observed predicted) ''negative_predictive_value''
          = metric (calculate_accuracy observed predicted) ''specificity''"
    unfolding metric_negative_predictive_value [OF assms] metric_specificity [OF assms] ..
next
  assume h: "0 < count_list observed 1 \<and> length observed < 2 ^ 53"
  have "np_true_divide (TP_count observed predicted) (int (count_list observed 1))
        = Fin (round_float64 (of_int (TP_count observed predicted)
                              / of_int (int (count_list observed 1))))"
  proof (rule np_true_divide_counts)
    show "0 \<le> TP_count observed predicted"
      unfolding TP_count_def by (rule count_indices_nonneg)
    show "TP_count observed predicted \<le> int (length observed)"
      unfolding TP_count_def by (rule count_indices_le_length)
    show "0 < count_list observed 1" using h by simp
    show "count_list observed 1 \<le> length observed" by (rule count_le_length)
    show "length observed < 2 ^ 53" using h by simp
  qed
  then show "metric (calculate_accuracy observed predicted) ''positive_predictive_value''
          = Some (Fin (round_float64 (of_int (TP_count observed predicted)
                                      / of_int (int (count_list observed 1)))))"
    unfolding metric_positive_predictive_value [OF assms] by simp
next
  assume "count_list observed 1 = 0"
  then have no: "1 \<notin> set observed" by (simp add: count_list_0_iff)
  show "metric (calculate_accuracy observed predicted) ''positive_predictive_value'' = Some NaN"
    unfolding metric_positive_predictive_value [OF assms]
      TP_count_no_observed_positive [OF no] count_list_no_positive [OF no]
      np_true_divide_zero_zero ..
next
  assume h: "0 < count_list observed 0 \<and> length observed < 2 ^ 53"
  have "np_true_divide (TN_count observed predicted) (int (count_list observed 0))
        = Fin (round_float64 (of_int (TN_count observed predicted)
                              / of_int (int (count_list observed 0))))"
  proof (rule np_true_divide_counts)
    show "0 \<le> TN_count observed predicted"
      unfolding TN_count_def by (rule count_indices_nonneg)
    show "TN_count observed predicted \<le> int (length observed)"
      unfolding TN_count_def by (rule count_indices_le_length)
    show "0 < count_list observed 0" using h by simp
    show "count_list observed 0 \<le> length observed" by (rule count_le_length)
    show "length observed < 2 ^ 53" using h by simp
  qed
  then show "metric (calculate_accuracy observed predicted) ''negative_predictive_value''
          = Some (Fin (round_float64 (of_int (TN_count observed predicted)
                                      / of_int (int (count_list observed 0)))))"
    unfolding metric_negative_predictive_value [OF assms] by simp
next
  assume "count_list observed 0 = 0"
  then have no: "0 \<notin> set observed" by (simp add: count_list_0_iff)
  have z: "int (count_list observed 0) = 0" using no by (simp add: count_list_0_iff)
  show "metric (calculate_accuracy observed predicted) ''negative_predictive_value'' = Some NaN"
    unfolding metric_negative_predictive_value [OF assms]
      TN_count_no_observed_negative [OF no] z np_true_divide_zero_zero ..
qed

theorem predictive_values_equal_recall_and_specificity_witness:
  "length [1, 1, 1, 0 :: int] = length [1, 0, 0, 0 :: int]
   \<and> 0 < count_list [1, 1, 1, 0 :: int] 1 \<and> 0 < count_list [1, 1, 1, 0 :: int] 0
   \<and> length [1, 1, 1, 0 :: int] < 2 ^ 53
   \<and> metric (calculate_accuracy [1, 1, 1, 0] [1, 0, 0, 0]) ''positive_predictive_value''
        = Some (Fin (6004799503160661 / 18014398509481984))
   \<and> metric (calculate_accuracy [1, 1, 1, 0] [1, 0, 0, 0]) ''recall''
        = Some (Fin (6004799503160661 / 18014398509481984))
   \<and> metric (calculate_accuracy [1, 1, 1, 0] [1, 0, 0, 0]) ''precision'' = Some (Fin 1)
   \<and> metric (calculate_accuracy [1, 1, 1, 0] [1, 0, 0, 0]) ''negative_predictive_value''
        = Some (Fin 1)
   \<and> metric (calculate_accuracy [1, 1, 1, 0] [1, 0, 0, 0]) ''specificity'' = Some (Fin 1)
   \<and> length [0, 0 :: int] = length [1, 0 :: int]
   \<and> count_list [0, 0 :: int] 1 = 0
   \<and> metric (calculate_accuracy [0, 0] [1, 0]) ''positive_predictive_value'' = Some NaN
   \<and> metric (calculate_accuracy [0, 0] [1, 0]) ''recall'' = Some NaN
   \<and> length [1, 1 :: int] = length [1, 0 :: int]
   \<and> count_list [1, 1 :: int] 0 = 0
   \<and> metric (calculate_accuracy [1, 1] [1, 0]) ''negative_predictive_value'' = Some NaN
   \<and> metric (calculate_accuracy [1, 1] [1, 0]) ''specificity'' = Some NaN"
proof -
  have len: "length [1, 1, 1, 0 :: int] = length [1, 0, 0, 0 :: int]" by simp
  have p1: "0 < count_list [1, 1, 1, 0 :: int] 1" by simp
  have p0: "0 < count_list [1, 1, 1, 0 :: int] 0" by simp
  have small: "length [1, 1, 1, 0 :: int] < 2 ^ 53" by simp
  note t = predictive_values_equal_recall_and_specificity [OF len]
  note rec = t [THEN conjunct2, THEN conjunct1]
  note spc = t [THEN conjunct2, THEN conjunct2, THEN conjunct2, THEN conjunct1]
  note ppv = t [THEN conjunct2, THEN conjunct2, THEN conjunct2, THEN conjunct2,
      THEN conjunct1, rule_format, OF conjI [OF p1 small]]
  note npv = t [THEN conjunct2, THEN conjunct2, THEN conjunct2, THEN conjunct2,
      THEN conjunct2, THEN conjunct2, THEN conjunct1, rule_format, OF conjI [OF p0 small]]
  have q1: "round_float64 (of_int (TP_count [1, 1, 1, 0] [1, 0, 0, 0])
              / of_int (int (count_list [1, 1, 1, 0 :: int] 1)))
            = 6004799503160661 / 18014398509481984"
    by code_simp
  have q0: "round_float64 (of_int (TN_count [1, 1, 1, 0] [1, 0, 0, 0])
              / of_int (int (count_list [1, 1, 1, 0 :: int] 0))) = 1"
    by code_simp
  have a1: "metric (calculate_accuracy [1, 1, 1, 0] [1, 0, 0, 0]) ''positive_predictive_value''
        = Some (Fin (6004799503160661 / 18014398509481984))"
    using ppv unfolding q1 .
  have a2: "metric (calculate_accuracy [1, 1, 1, 0] [1, 0, 0, 0]) ''recall''
        = Some (Fin (6004799503160661 / 18014398509481984))"
    using rec unfolding a1 by (rule sym)
  have a3: "metric (calculate_accuracy [1, 1, 1, 0] [1, 0, 0, 0]) ''precision'' = Some (Fin 1)"
    unfolding metric_precision [OF len] by code_simp
  have a4: "metric (calculate_accuracy [1, 1, 1, 0] [1, 0, 0, 0]) ''negative_predictive_value''
        = Some (Fin 1)"
    using npv unfolding q0 .
  have a5: "metric (calculate_accuracy [1, 1, 1, 0] [1, 0, 0, 0]) ''specificity'' = Some (Fin 1)"
    using spc unfolding a4 by (rule sym)
  have len': "length [0, 0 :: int] = length [1, 0 :: int]" by simp
  have z1: "count_list [0, 0 :: int] 1 = 0" by simp
  note t' = predictive_values_equal_recall_and_specificity [OF len']
  note b1 = t' [THEN conjunct2, THEN conjunct2, THEN conjunct2, THEN conjunct2,
      THEN conjunct2, THEN conjunct1, rule_format, OF z1]
  have b2: "metric (calculate_accuracy [0, 0] [1, 0]) ''recall'' = Some NaN"
    using t' [THEN conjunct2, THEN conjunct1] unfolding b1 by (rule sym)
  have len'': "length [1, 1 :: int] = length [1, 0 :: int]" by simp
  have z0: "count_list [1, 1 :: int] 0 = 0" by simp
  note t'' = predictive_values_equal_recall_and_specificity [OF len'']
  note c1 = t'' [THEN conjunct2, THEN conjunct2, THEN conjunct2, THEN conjunct2,
      THEN conjunct2, THEN conjunct2, THEN conjunct2, rule_format, OF z0]
  have c2: "metric (calculate_accuracy [1, 1] [1, 0]) ''specificity'' = Some NaN"
    using t'' [THEN conjunct2, THEN conjunct2, THEN conjunct2, THEN conjunct1]
    unfolding c1 by (rule sym)
  show ?thesis
    by (intro conjI len p1 p0 small a1 a2 a3 a4 a5 len' z1 b1 b2 len'' z0 c1 c2)
qed

subsection \<open>C7: the false-negative mask\<close>

text \<open>
  Claim C7. For every pair of equal-length sequences with all elements in \<open>{0, 1}\<close>, the
  false-negative mask of the function, the predicted-negative mask combined with the
  negation of the observed-negative mask, is elementwise equal to the conventional one
  (predicted 0 and observed 1). Only the observed labels have to be 0 or 1 for this.
\<close>

theorem false_negatives_equals_conventional:
  assumes "length observed = length predicted" and "valid_labels observed"
  shows "false_negatives observed predicted
         = Inr (false_negatives_conventional observed predicted)"
  unfolding false_negatives_same_length [OF assms(1)]
    false_negatives_conventional_map2 [OF assms(2)] ..

theorem false_negatives_equals_conventional_witness:
  "length [0, 1, 1, 0 :: int] = length [0, 1, 0, 1 :: int] \<and> valid_labels [0, 1, 1, 0]
   \<and> false_negatives [0, 1, 1, 0] [0, 1, 0, 1] = Inr [False, False, True, False]
   \<and> false_negatives_conventional [0, 1, 1, 0] [0, 1, 0, 1] = [False, False, True, False]"
proof -
  have h1: "length [0, 1, 1, 0 :: int] = length [0, 1, 0, 1 :: int]" by simp
  have h2: "valid_labels [0, 1, 1, 0]" by (simp add: valid_labels_def)
  have c: "false_negatives_conventional [0, 1, 1, 0] [0, 1, 0, 1] = [False, False, True, False]"
    by (simp add: false_negatives_conventional_def)
  show ?thesis
    using h1 h2 c false_negatives_equals_conventional [OF h1 h2] by simp
qed

subsection \<open>C8: measures stored under several names\<close>

text \<open>
  Claim C8. For every valid input, the returned values of \<open>recall\<close>, \<open>sensitivity\<close> and
  \<open>true_positive_rate\<close> are identical to each other, and the returned values of
  \<open>specificity\<close> and \<open>true_negative_rate\<close> are identical to each other. The theorem needs
  only that the two sequences have the same length; identical includes the case that the
  value is \<open>nan\<close>.
\<close>

theorem recall_sensitivity_true_positive_rate_identical:
  assumes "length observed = length predicted"
  shows "metric (calculate_accuracy observed predicted) ''recall'' \<noteq> None
       \<and> metric (calculate_accuracy observed predicted) ''sensitivity''
           = metric (calculate_accuracy observed predicted) ''recall''
       \<and> metric (calculate_accuracy observed predicted) ''true_positive_rate''
           = metric (calculate_accuracy observed predicted) ''recall''
       \<and> metric (calculate_accuracy observed predicted) ''specificity'' \<noteq> None
       \<and> metric (calculate_accuracy observed predicted) ''true_negative_rate''
           = metric (calculate_accuracy observed predicted) ''specificity''"
  unfolding metric_recall [OF assms] metric_sensitivity [OF assms]
    metric_true_positive_rate [OF assms] metric_specificity [OF assms]
    metric_true_negative_rate [OF assms]
  by (intro conjI refl option.distinct(2))

theorem recall_sensitivity_true_positive_rate_identical_witness:
  "length [0, 1, 1, 0 :: int] = length [0, 1, 0, 1 :: int]
   \<and> metric (calculate_accuracy [0, 1, 1, 0] [0, 1, 0, 1]) ''recall'' \<noteq> None
   \<and> metric (calculate_accuracy [0, 1, 1, 0] [0, 1, 0, 1]) ''sensitivity''
       = metric (calculate_accuracy [0, 1, 1, 0] [0, 1, 0, 1]) ''recall''
   \<and> metric (calculate_accuracy [0, 1, 1, 0] [0, 1, 0, 1]) ''true_positive_rate''
       = metric (calculate_accuracy [0, 1, 1, 0] [0, 1, 0, 1]) ''recall''
   \<and> metric (calculate_accuracy [0, 1, 1, 0] [0, 1, 0, 1]) ''specificity'' \<noteq> None
   \<and> metric (calculate_accuracy [0, 1, 1, 0] [0, 1, 0, 1]) ''true_negative_rate''
       = metric (calculate_accuracy [0, 1, 1, 0] [0, 1, 0, 1]) ''specificity''"
proof -
  have h: "length [0, 1, 1, 0 :: int] = length [0, 1, 0, 1 :: int]" by simp
  show ?thesis
    by (rule conjI [OF h recall_sensitivity_true_positive_rate_identical [OF h]])
qed

subsection \<open>C9: f1 between precision and recall\<close>

text \<open>
  The harmonic mean of two numbers lies between them, but \<open>f1\<close> is computed with four
  rounded operations and can leave the interval by a rounding error. With
  \<open>observed = [0, 1, 1, 1, 1, 1]\<close> and \<open>predicted = [1, 0, 1, 1, 1, 1]\<close>, precision and
  recall are both the double \<open>0.8\<close>, which is \<open>3602879701896397 / 2\<^sup>5\<^sup>2\<close>; their product
  rounds to \<open>0.6400000000000001\<close>, the quotient by \<open>1.6\<close> to \<open>0.4000000000000001\<close>, and
  \<open>f1\<close> is \<open>0.8000000000000002\<close>, above both.
\<close>

theorem f1_above_precision_and_recall_counterexample:
  "metric (calculate_accuracy [0, 1, 1, 1, 1, 1] [1, 0, 1, 1, 1, 1]) ''precision''
     = Some (Fin (3602879701896397 / 4503599627370496))
   \<and> metric (calculate_accuracy [0, 1, 1, 1, 1, 1] [1, 0, 1, 1, 1, 1]) ''recall''
     = Some (Fin (3602879701896397 / 4503599627370496))
   \<and> metric (calculate_accuracy [0, 1, 1, 1, 1, 1] [1, 0, 1, 1, 1, 1]) ''f1''
     = Some (Fin (3602879701896397 / 4503599627370496 + 1 / 2 ^ 53))
   \<and> (0 :: rat) < 3602879701896397 / 4503599627370496
   \<and> max (3602879701896397 / 4503599627370496) (3602879701896397 / 4503599627370496)
       < (3602879701896397 / 4503599627370496 + 1 / 2 ^ 53 :: rat)"
  unfolding harmonic_example_precision harmonic_example_recall harmonic_example_f1
    round_float64_four_fifths
  by simp

text \<open>
  Claim C9, as amended. For every valid input where precision and recall are both defined
  and strictly positive, the returned \<open>f1\<close> lies between the returned precision and recall
  up to a relative rounding error of \<open>2\<^sup>-\<^sup>5\<^sup>0\<close>:
  \<open>(1 - 2\<^sup>-\<^sup>5\<^sup>0) * min(precision, recall) \<le> f1 \<le> (1 + 2\<^sup>-\<^sup>5\<^sup>0) * max(precision, recall)\<close>.
\<close>

theorem f1_between_precision_and_recall_up_to_rounding:
  assumes len: "length observed = length predicted"
    and prec: "metric (calculate_accuracy observed predicted) ''precision'' = Some (Fin p)"
    and rec: "metric (calculate_accuracy observed predicted) ''recall'' = Some (Fin r)"
    and pos: "0 < p" "0 < r"
  shows "\<exists>f. metric (calculate_accuracy observed predicted) ''f1'' = Some (Fin f)
           \<and> (1 - 1 / 2 ^ 50) * min p r \<le> f \<and> f \<le> (1 + 1 / 2 ^ 50) * max p r"
proof -
  have p: "np_true_divide (TP_count observed predicted)
             (TP_count observed predicted + FP_count observed predicted) = Fin p"
    using prec unfolding metric_precision [OF len] by simp
  have r: "np_true_divide (TP_count observed predicted) (int (count_list observed 1)) = Fin r"
    using rec unfolding metric_recall [OF len] by simp
  show ?thesis
    unfolding metric_f1 [OF len] p r option.inject
    using pos by (rule f1_rounding_bounds)
qed

theorem f1_between_precision_and_recall_up_to_rounding_witness:
  "length [0, 1, 1, 1, 1, 1 :: int] = length [1, 0, 1, 1, 1, 1 :: int]
   \<and> metric (calculate_accuracy [0, 1, 1, 1, 1, 1] [1, 0, 1, 1, 1, 1]) ''precision''
       = Some (Fin (3602879701896397 / 4503599627370496))
   \<and> metric (calculate_accuracy [0, 1, 1, 1, 1, 1] [1, 0, 1, 1, 1, 1]) ''recall''
       = Some (Fin (3602879701896397 / 4503599627370496))
   \<and> (0 :: rat) < 3602879701896397 / 4503599627370496
   \<and> (\<exists>f. metric (calculate_accuracy [0, 1, 1, 1, 1, 1] [1, 0, 1, 1, 1, 1]) ''f1''
             = Some (Fin f)
         \<and> (1 - 1 / 2 ^ 50)
             * min (3602879701896397 / 4503599627370496) (3602879701896397 / 4503599627370496)
             \<le> f
         \<and> f \<le> (1 + 1 / 2 ^ 50)
             * max (3602879701896397 / 4503599627370496) (3602879701896397 / 4503599627370496))"
proof -
  have len: "length [0, 1, 1, 1, 1, 1 :: int] = length [1, 0, 1, 1, 1, 1 :: int]" by simp
  have prec: "metric (calculate_accuracy [0, 1, 1, 1, 1, 1] [1, 0, 1, 1, 1, 1]) ''precision''
       = Some (Fin (3602879701896397 / 4503599627370496))"
    unfolding harmonic_example_precision round_float64_four_fifths ..
  have rec: "metric (calculate_accuracy [0, 1, 1, 1, 1, 1] [1, 0, 1, 1, 1, 1]) ''recall''
       = Some (Fin (3602879701896397 / 4503599627370496))"
    unfolding harmonic_example_recall round_float64_four_fifths ..
  have pos: "(0 :: rat) < 3602879701896397 / 4503599627370496" by simp
  show ?thesis
    by (intro conjI len prec rec pos
        f1_between_precision_and_recall_up_to_rounding [OF len prec rec pos pos])
qed

subsection \<open>C10: what a label outside 0 and 1 does\<close>

text \<open>
  The four masks are: predicted 1 and observed 1; predicted 1 and observed not 1;
  predicted 0 and observed 0; predicted 0 and observed not 0. A case whose observed label
  is neither 0 nor 1 is therefore still counted, as a false positive or a false negative,
  whenever its predicted label is 0 or 1. With \<open>observed = [2]\<close> and \<open>predicted = [1]\<close>
  the four counts are 0, 1, 0, 0 and add up to the one case there is.
\<close>

theorem counts_still_partition_counterexample:
  "\<not> valid_labels [2]
   \<and> true_positives [2] [1] = Inr [False] \<and> false_positives [2] [1] = Inr [True]
   \<and> true_negatives [2] [1] = Inr [False] \<and> false_negatives [2] [1] = Inr [False]
   \<and> np_sum [False] + np_sum [True] + np_sum [False] + np_sum [False]
       = int (length [2 :: int])"
proof -
  have v: "\<not> valid_labels [2]" by (simp add: valid_labels_def)
  have tp: "true_positives [2] [1] = Inr [False]" by code_simp
  have fp: "false_positives [2] [1] = Inr [True]" by code_simp
  have tn: "true_negatives [2] [1] = Inr [False]" by code_simp
  have fn: "false_negatives [2] [1] = Inr [False]" by code_simp
  have s: "np_sum [False] + np_sum [True] + np_sum [False] + np_sum [False]
           = int (length [2 :: int])"
    by (simp add: np_sum_def)
  show ?thesis by (intro conjI v tp fp tn fn s)
qed

text \<open>
  Claim C10, as amended. For every pair of equal-length sequences (of fewer than \<open>2\<^sup>5\<^sup>2\<close>
  elements) in which some element is outside \<open>{0, 1}\<close>, \<open>calculate_accuracy\<close> returns the
  full dictionary without raising an error; such an element is in neither the positive mask
  (\<open>== 1\<close>) nor the negative mask (\<open>== 0\<close>) of its sequence, so when it occurs in
  \<open>observed\<close> the returned \<open>observed_positive_rate\<close> and \<open>observed_negative_rate\<close> add
  up to less than 1, as exact numbers and also when they are added in binary64. The four counts \<open>TP\<close>, \<open>FP\<close>, \<open>TN\<close>, \<open>FN\<close> add up to the number of
  cases whose predicted label is 0 or 1: they partition the \<open>N\<close> cases exactly when every
  predicted label is valid, whatever the observed labels are.
\<close>

theorem invalid_label_in_neither_mask:
  assumes len: "length observed = length predicted"
    and inv: "\<not> valid_labels observed \<or> \<not> valid_labels predicted"
    and small: "length observed < 2 ^ 52"
  shows "(\<exists>res. calculate_accuracy observed predicted = Inr res \<and> map fst res = result_keys)
       \<and> (\<forall>i < length observed. observed ! i \<noteq> 0 \<and> observed ! i \<noteq> 1 \<longrightarrow>
             \<not> observed_positives observed ! i \<and> \<not> observed_negatives observed ! i)
       \<and> (\<forall>i < length predicted. predicted ! i \<noteq> 0 \<and> predicted ! i \<noteq> 1 \<longrightarrow>
             \<not> predicted_positives predicted ! i \<and> \<not> predicted_negatives predicted ! i)
       \<and> (\<not> valid_labels observed \<longrightarrow>
            (\<exists>a b c. metric (calculate_accuracy observed predicted) ''observed_positive_rate''
                      = Some (Fin a)
                  \<and> metric (calculate_accuracy observed predicted) ''observed_negative_rate''
                      = Some (Fin b)
                  \<and> a + b < 1
                  \<and> float64_add (Fin a) (Fin b) = Fin c \<and> c < 1))
       \<and> (\<exists>tp fp tn fn.
             true_positives observed predicted = Inr tp
           \<and> false_positives observed predicted = Inr fp
           \<and> true_negatives observed predicted = Inr tn
           \<and> false_negatives observed predicted = Inr fn
           \<and> np_sum tp + np_sum fp + np_sum tn + np_sum fn
               = int (length (filter (\<lambda>p. p = 0 \<or> p = 1) predicted))
           \<and> (np_sum tp + np_sum fp + np_sum tn + np_sum fn = int (length observed)
                \<longleftrightarrow> valid_labels predicted))"
proof (intro conjI)
  show "\<exists>res. calculate_accuracy observed predicted = Inr res \<and> map fst res = result_keys"
    using len by (intro calculate_accuracy_returns) simp
  show "\<forall>i < length observed. observed ! i \<noteq> 0 \<and> observed ! i \<noteq> 1 \<longrightarrow>
          \<not> observed_positives observed ! i \<and> \<not> observed_negatives observed ! i"
    by (simp add: observed_positives_def observed_negatives_def np_eq_scalar_def)
  show "\<forall>i < length predicted. predicted ! i \<noteq> 0 \<and> predicted ! i \<noteq> 1 \<longrightarrow>
          \<not> predicted_positives predicted ! i \<and> \<not> predicted_negatives predicted ! i"
    by (simp add: predicted_positives_def predicted_negatives_def np_eq_scalar_def)
  show "\<not> valid_labels observed \<longrightarrow>
        (\<exists>a b c. metric (calculate_accuracy observed predicted) ''observed_positive_rate''
                  = Some (Fin a)
              \<and> metric (calculate_accuracy observed predicted) ''observed_negative_rate''
                  = Some (Fin b)
              \<and> a + b < 1
              \<and> float64_add (Fin a) (Fin b) = Fin c \<and> c < 1)"
  proof
    assume "\<not> valid_labels observed"
    then have "int (count_list observed 1) + int (count_list observed 0) < int (length observed)"
      by (rule invalid_label_counts)
    moreover have "int (length observed) < 2 ^ 52" using small by simp
    ultimately have "\<exists>x y z.
        np_true_divide (int (count_list observed 1)) (int (length observed)) = Fin x
      \<and> np_true_divide (int (count_list observed 0)) (int (length observed)) = Fin y
      \<and> x + y < 1 \<and> float64_add (Fin x) (Fin y) = Fin z \<and> z < 1"
      by (intro rates_sum_less_one) simp_all
    then show "\<exists>a b c. metric (calculate_accuracy observed predicted) ''observed_positive_rate''
                  = Some (Fin a)
              \<and> metric (calculate_accuracy observed predicted) ''observed_negative_rate''
                  = Some (Fin b)
              \<and> a + b < 1
              \<and> float64_add (Fin a) (Fin b) = Fin c \<and> c < 1"
      unfolding metric_observed_positive_rate [OF len] metric_observed_negative_rate [OF len]
        option.inject .
  qed
  have total: "length (filter (\<lambda>p. p = 0 \<or> p = 1) predicted) = length predicted
               \<longleftrightarrow> valid_labels predicted"
    unfolding valid_labels_set by (rule length_filter_eq_length_iff)
  show "\<exists>tp fp tn fn.
             true_positives observed predicted = Inr tp
           \<and> false_positives observed predicted = Inr fp
           \<and> true_negatives observed predicted = Inr tn
           \<and> false_negatives observed predicted = Inr fn
           \<and> np_sum tp + np_sum fp + np_sum tn + np_sum fn
               = int (length (filter (\<lambda>p. p = 0 \<or> p = 1) predicted))
           \<and> (np_sum tp + np_sum fp + np_sum tn + np_sum fn = int (length observed)
                \<longleftrightarrow> valid_labels predicted)"
    unfolding masks_same_length [OF len]
  proof (intro exI conjI)
    show "np_sum (map2 (\<lambda>p ob. p = 1 \<and> ob = 1) predicted observed)
        + np_sum (map2 (\<lambda>p ob. p = 1 \<and> ob \<noteq> 1) predicted observed)
        + np_sum (map2 (\<lambda>p ob. p = 0 \<and> ob = 0) predicted observed)
        + np_sum (map2 (\<lambda>p ob. p = 0 \<and> ob \<noteq> 0) predicted observed)
        = int (length (filter (\<lambda>p. p = 0 \<or> p = 1) predicted))"
      by (rule four_masks_count_predicted [OF len])
    show "np_sum (map2 (\<lambda>p ob. p = 1 \<and> ob = 1) predicted observed)
        + np_sum (map2 (\<lambda>p ob. p = 1 \<and> ob \<noteq> 1) predicted observed)
        + np_sum (map2 (\<lambda>p ob. p = 0 \<and> ob = 0) predicted observed)
        + np_sum (map2 (\<lambda>p ob. p = 0 \<and> ob \<noteq> 0) predicted observed)
        = int (length observed) \<longleftrightarrow> valid_labels predicted"
      unfolding four_masks_count_predicted [OF len] len using total by simp
  qed (rule refl)+
qed


theorem invalid_label_in_neither_mask_witness:
  "length [2, 1 :: int] = length [0, 1 :: int]
   \<and> \<not> valid_labels [2, 1]
   \<and> length [2, 1 :: int] < 2 ^ 52
   \<and> (\<exists>res. calculate_accuracy [2, 1] [0, 1] = Inr res \<and> map fst res = result_keys)
   \<and> \<not> observed_positives [2, 1] ! 0 \<and> \<not> observed_negatives [2, 1] ! 0
   \<and> (\<exists>a b c.
           metric (calculate_accuracy [2, 1] [0, 1]) ''observed_positive_rate'' = Some (Fin a)
         \<and> metric (calculate_accuracy [2, 1] [0, 1]) ''observed_negative_rate'' = Some (Fin b)
         \<and> a + b < 1
         \<and> float64_add (Fin a) (Fin b) = Fin c \<and> c < 1)
   \<and> (\<exists>tp fp tn fn.
         true_positives [2, 1] [0, 1] = Inr tp
       \<and> false_positives [2, 1] [0, 1] = Inr fp
       \<and> true_negatives [2, 1] [0, 1] = Inr tn
       \<and> false_negatives [2, 1] [0, 1] = Inr fn
       \<and> np_sum tp + np_sum fp + np_sum tn + np_sum fn
           = int (length (filter (\<lambda>p. p = 0 \<or> p = 1) [0, 1 :: int]))
       \<and> (np_sum tp + np_sum fp + np_sum tn + np_sum fn = int (length [2, 1 :: int])
            \<longleftrightarrow> valid_labels [0, 1]))"
proof -
  have h1: "length [2, 1 :: int] = length [0, 1 :: int]" by simp
  have h2: "\<not> valid_labels [2, 1]" by (simp add: valid_labels_def)
  have h3: "\<not> valid_labels [2, 1] \<or> \<not> valid_labels [0, 1]" using h2 by (rule disjI1)
  have h4: "length [2, 1 :: int] < 2 ^ 52" by simp
  note t = invalid_label_in_neither_mask [OF h1 h3 h4]
  note t1 = t [THEN conjunct1]
  note t2 = t [THEN conjunct2, THEN conjunct1, rule_format, of 0]
  note t4 = t [THEN conjunct2, THEN conjunct2, THEN conjunct2, THEN conjunct1, rule_format, OF h2]
  note t5 = t [THEN conjunct2, THEN conjunct2, THEN conjunct2, THEN conjunct2]
  have i0: "0 < length [2, 1 :: int]" by simp
  have v0: "[2, 1 :: int] ! 0 \<noteq> 0 \<and> [2, 1 :: int] ! 0 \<noteq> 1" by simp
  note m = t2 [OF i0 v0]
  show ?thesis
    by (intro conjI h1 h2 h4 t1 m [THEN conjunct1] m [THEN conjunct2] t4 t5)
qed


end
